theory Spec2Isabelle
  imports Complex_Main "HOL-Library.Stream" "HOL-Library.AList" "HOL-Library.Word"
begin

section \<open>Numbers, randomness and time\<close>

text \<open>
  JavaScript numbers are modelled as reals: the arithmetic of the mock generators is the
  ideal arithmetic of the source text, without the rounding of IEEE doubles. A value
  computed here and the double that the program computes can differ in the last digit
  that \<^verbatim>\<open>toFixed\<close> keeps, when the exact result lies at or next to the middle
  between two decimals; where that can be, the properties below are about orders,
  ranges, lengths and the parts of the state that stay as they are, which are the same
  for both.
  \<^verbatim>\<open>Math.random()\<close> is a stream of reals that every call reads the head of,
  \<^verbatim>\<open>uuidv4()\<close> (a third-party library) a stream of strings, and the clock
  (\<^verbatim>\<open>new Date()\<close>, \<^verbatim>\<open>Date.now()\<close>) a number of milliseconds that stays
  the same during one synchronous call. A time stamp is kept as its number of
  milliseconds and an ISO date (\<^verbatim>\<open>toISOString().split('T')[0]\<close>) as the number
  of its UTC day.
\<close>

type_synonym random_source = "real stream"
type_synonym uuid_source = "string stream"

text \<open>
  \<^verbatim>\<open>parseFloat(x.toFixed(f))\<close>: the decimal with \<open>f\<close> fraction digits nearest
  to \<open>x\<close>, the larger one (in magnitude) of two nearest; from \<open>10^21\<close> on
  \<^verbatim>\<open>toFixed\<close> prints the number itself.
\<close>

definition toFixed :: "nat \<Rightarrow> real \<Rightarrow> real" where
  "toFixed f x =
     (if 10 ^ 21 \<le> \<bar>x\<bar> then x
      else if x < 0 then - (of_int \<lfloor>(- x) * 10 ^ f + 1 / 2\<rfloor> / 10 ^ f)
      else of_int \<lfloor>x * 10 ^ f + 1 / 2\<rfloor> / 10 ^ f)"

definition msPerDay :: int where
  "msPerDay = 86400000"

definition isoDate :: "int \<Rightarrow> int" where
  "isoDate ms = ms div msPerDay"

text \<open>
  The local time zone is the function \<^verbatim>\<open>LocalTZA(t, isUTC)\<close> of ECMAScript: the
  offset of local time from UTC in milliseconds, at the UTC time \<open>t\<close> when
  \<open>isUTC\<close> is true and at the local time \<open>t\<close> when it is false.
\<close>

type_synonym time_zone = "int \<Rightarrow> bool \<Rightarrow> int"

definition localTime :: "time_zone \<Rightarrow> int \<Rightarrow> int" where
  "localTime tz t = t + tz t True"

definition utc :: "time_zone \<Rightarrow> int \<Rightarrow> int" where
  "utc tz t = t - tz t False"

text \<open>
  \<^verbatim>\<open>const date = new Date(); date.setDate(date.getDate() - i)\<close>: the day of the
  month is read and set in local time, so the local time moves back by \<open>i\<close> days of
  24 hours, with the time within the day as it is, and the result is taken back to UTC
  with the offset that holds at the new local time. Where the offset changes in between
  (daylight saving), the UTC time moves by more or less than \<open>i\<close> days.
\<close>

definition setDateBack :: "time_zone \<Rightarrow> int \<Rightarrow> nat \<Rightarrow> int" where
  "setDateBack tz now i = utc tz (localTime tz now - int i * msPerDay)"


text \<open>\<^verbatim>\<open>new Date(t)\<close> drops the fraction of a time value (towards zero).\<close>

definition timeClip :: "real \<Rightarrow> int" where
  "timeClip t = (if t < 0 then \<lceil>t\<rceil> else \<lfloor>t\<rfloor>)"

section \<open>The mock data generators\<close>

subsection \<open>generateMockPerformanceHistory\<close>

record perf_entry =
  pe_date :: int
  pe_accuracy :: real
  pe_precision :: real
  pe_recall :: real
  pe_f1Score :: real
  pe_latency :: real
  pe_throughput :: real

record perf_current =
  currentAccuracy :: real
  currentPrecision :: real
  currentRecall :: real
  currentF1 :: real
  currentLatency :: real
  currentThroughput :: real

text \<open>
  One round of the loop \<^verbatim>\<open>for (let i = days - 1; i >= 0; i--)\<close>: six calls of
  \<^verbatim>\<open>Math.random()\<close> move the six current values, clamped by
  \<^verbatim>\<open>Math.max(lo, Math.min(hi, _))\<close>.
\<close>

definition perfStep :: "perf_current \<Rightarrow> random_source \<Rightarrow> perf_current" where
  "perfStep c rs =
     \<lparr> currentAccuracy = max 70 (min 99 (currentAccuracy c + (rs !! 0 - 0.5) * 2)),
       currentPrecision = max 0.7 (min 0.99 (currentPrecision c + (rs !! 1 - 0.5) * 0.05)),
       currentRecall = max 0.7 (min 0.99 (currentRecall c + (rs !! 2 - 0.5) * 0.05)),
       currentF1 = max 0.7 (min 0.99 (currentF1 c + (rs !! 3 - 0.5) * 0.05)),
       currentLatency = max 5 (min 200 (currentLatency c + (rs !! 4 - 0.5) * 10)),
       currentThroughput = max 50 (min 2000 (currentThroughput c + (rs !! 5 - 0.5) * 100)) \<rparr>"

definition perfEntry :: "time_zone \<Rightarrow> int \<Rightarrow> nat \<Rightarrow> perf_current \<Rightarrow> perf_entry" where
  "perfEntry tz now i c =
     \<lparr> pe_date = isoDate (setDateBack tz now i),
       pe_accuracy = toFixed 2 (currentAccuracy c),
       pe_precision = toFixed 2 (currentPrecision c),
       pe_recall = toFixed 2 (currentRecall c),
       pe_f1Score = toFixed 2 (currentF1 c),
       pe_latency = toFixed 2 (currentLatency c),
       pe_throughput = toFixed 2 (currentThroughput c) \<rparr>"

text \<open>The loop; its first argument is \<open>i + 1\<close>, the number of rounds left.\<close>

fun perfLoop :: "time_zone \<Rightarrow> nat \<Rightarrow> int \<Rightarrow> perf_current \<Rightarrow> random_source \<Rightarrow> perf_entry list \<times> random_source" where
  "perfLoop tz 0 now c rs = ([], rs)"
| "perfLoop tz (Suc i) now c rs =
     (let c' = perfStep c rs;
          (es, rs') = perfLoop tz i now c' (sdrop 6 rs)
      in (perfEntry tz now i c' # es, rs'))"

definition generateMockPerformanceHistory ::
  "time_zone \<Rightarrow> int \<Rightarrow> int \<Rightarrow> random_source \<Rightarrow> perf_entry list \<times> random_source" where
  "generateMockPerformanceHistory tz days now rs =
     perfLoop tz (nat days) now
       \<lparr> currentAccuracy = rs !! 0 * (95 - 80) + 80,
         currentPrecision = rs !! 1 * (0.95 - 0.8) + 0.8,
         currentRecall = rs !! 2 * (0.95 - 0.8) + 0.8,
         currentF1 = rs !! 3 * (0.95 - 0.8) + 0.8,
         currentLatency = rs !! 4 * (100 - 10) + 10,
         currentThroughput = rs !! 5 * (1000 - 100) + 100 \<rparr>
       (sdrop 6 rs)"

text \<open>What \<^verbatim>\<open>Array.prototype.map\<close> does when its callback reads a source of
  values (random numbers, identifiers): the elements are visited in order and each visit
  goes on where the visit before stopped.\<close>

fun mapWithSource :: "('b \<Rightarrow> 's \<Rightarrow> 'a \<times> 's) \<Rightarrow> 'b list \<Rightarrow> 's \<Rightarrow> 'a list \<times> 's" where
  "mapWithSource f [] s = ([], s)"
| "mapWithSource f (x # xs) s =
     (let (y, s') = f x s;
          (ys, s'') = mapWithSource f xs s'
      in (y # ys, s''))"

subsection \<open>Values of type \<^verbatim>\<open>any\<close>\<close>

datatype jsval =
    JUndefined
  | JNum real
  | JStr string
  | JArr "jsval list"
  | JObj "(string \<times> jsval) list"

subsection \<open>generateMockFeatureImportance\<close>

record feature_importance =
  feature :: string
  importance :: real

fun natToString :: "nat \<Rightarrow> string" where
  "natToString n =
     (if n < 10 then [char_of (48 + n)]
      else natToString (n div 10) @ [char_of (48 + n mod 10)])"

definition featureNames :: "string list" where
  "featureNames = [''feature_A'', ''feature_B'', ''feature_C'', ''feature_D'', ''feature_E'',
     ''feature_F'', ''feature_G'', ''feature_H'', ''feature_I'', ''feature_J'']"

definition featureImportanceEntry :: "nat \<Rightarrow> real \<Rightarrow> feature_importance" where
  "featureImportanceEntry i r =
     \<lparr> feature = featureNames ! (i mod length featureNames) @
         (if i \<ge> length featureNames then ''_'' @ natToString (i div length featureNames) else []),
       importance = toFixed 4 (r * 0.2 + 0.01) \<rparr>"

text \<open>\<^verbatim>\<open>sort((a, b) => b.importance - a.importance)\<close>: descending, and stable.\<close>

definition generateMockFeatureImportance ::
  "int \<Rightarrow> random_source \<Rightarrow> feature_importance list \<times> random_source" where
  "generateMockFeatureImportance numFeatures rs =
     (sort_key (\<lambda>f. - importance f)
        (map (\<lambda>i. featureImportanceEntry i (rs !! i)) [0..<nat numFeatures]),
      sdrop (nat numFeatures) rs)"

subsection \<open>generateMockXAIInsights\<close>

datatype xai_type = LIME | SHAP | Counterfactual

record xai_insight =
  x_id :: string
  x_type :: xai_type
  x_description :: string
  prediction :: "jsval option"
  explanationData :: jsval
  generatedAt :: int

definition generateMockXAIInsights :: "int \<Rightarrow> uuid_source \<Rightarrow> xai_insight list \<times> uuid_source" where
  "generateMockXAIInsights now us =
     ([ \<lparr> x_id = us !! 0,
          x_type = SHAP,
          x_description = ''SHAP values for a recent prediction. Feature_A contributed positively, Feature_C negatively.'',
          prediction = Some (JObj [(''label'', JStr ''Class 1''), (''probability'', JNum 0.85)]),
          explanationData = JObj
            [(''baseValue'', JNum 0.5),
             (''shapValues'', JObj [(''feature_A'', JNum 0.2), (''feature_B'', JNum 0.05), (''feature_C'', JNum (- 0.1))]),
             (''featureValues'', JObj [(''feature_A'', JNum 10), (''feature_B'', JNum 0.5), (''feature_C'', JNum 200)])],
          generatedAt = now \<rparr>,
        \<lparr> x_id = us !! 1,
          x_type = LIME,
          x_description = ''LIME explanation for a misclassified instance. High values in Feature_X were critical.'',
          prediction = Some (JObj [(''label'', JStr ''Class 0''), (''probability'', JNum 0.6), (''actual'', JStr ''Class 1'')]),
          explanationData = JArr
            [JObj [(''feature'', JStr ''feature_X''), (''weight'', JNum 0.3), (''value'', JNum 50)],
             JObj [(''feature'', JStr ''feature_Y''), (''weight'', JNum (- 0.1)), (''value'', JNum 2)]],
          generatedAt = now - 3600000 \<rparr> ],
      sdrop 2 us)"

subsection \<open>generateMockDataDriftReport\<close>

record distribution_shift =
  baseline :: "(string \<times> real) list"
  current :: "(string \<times> real) list"

record drift_feature =
  df_name :: string
  driftScore :: real
  anomaliesDetected :: real
  distributionShift :: "distribution_shift option"

record drift_report =
  dr_timestamp :: int
  dr_features :: "drift_feature list"
  overallDriftScore :: real
  driftDetected :: bool

definition driftFeature :: "nat \<Rightarrow> string \<Rightarrow> random_source \<Rightarrow> drift_feature \<times> random_source" where
  "driftFeature i name rs =
     (if i mod 3 = 0 then
        (\<lparr> df_name = name,
           driftScore = toFixed 2 (rs !! 0 * 0.5),
           anomaliesDetected = of_int \<lfloor>rs !! 1 * 5\<rfloor>,
           distributionShift = Some
             \<lparr> baseline = [(''val1'', 0.3), (''val2'', 0.7)],
               current = [(''val1'', rs !! 2 * 0.4 + 0.1), (''val2'', rs !! 3 * 0.4 + 0.5)] \<rparr> \<rparr>,
         sdrop 4 rs)
      else
        (\<lparr> df_name = name,
           driftScore = toFixed 2 (rs !! 0 * 0.5),
           anomaliesDetected = of_int \<lfloor>rs !! 1 * 5\<rfloor>,
           distributionShift = None \<rparr>,
         sdrop 2 rs))"

definition driftReport :: "time_zone \<Rightarrow> int \<Rightarrow> nat \<Rightarrow> random_source \<Rightarrow> drift_report \<times> random_source" where
  "driftReport tz now i rs =
     (let (features, rs') = mapWithSource (driftFeature i)
            [''feature_A'', ''feature_B'', ''feature_C'', ''feature_D'', ''feature_E''] rs;
          overall = toFixed 2 (foldl (\<lambda>sum f. sum + driftScore f) 0 features / real (length features))
      in (\<lparr> dr_timestamp = setDateBack tz now i,
             dr_features = features,
             overallDriftScore = overall,
             driftDetected = (overall > 0.25) \<rparr>,
          rs'))"

text \<open>The loop \<^verbatim>\<open>for (let i = days - 1; i >= 0; i--)\<close>; the first argument is \<open>i + 1\<close>.\<close>

fun driftLoop :: "time_zone \<Rightarrow> nat \<Rightarrow> int \<Rightarrow> random_source \<Rightarrow> drift_report list \<times> random_source" where
  "driftLoop tz 0 now rs = ([], rs)"
| "driftLoop tz (Suc i) now rs =
     (let (r, rs') = driftReport tz now i rs;
          (reports, rs'') = driftLoop tz i now rs'
      in (r # reports, rs''))"

definition generateMockDataDriftReport ::
  "time_zone \<Rightarrow> int \<Rightarrow> int \<Rightarrow> random_source \<Rightarrow> drift_report list \<times> random_source" where
  "generateMockDataDriftReport tz days now rs = driftLoop tz (nat days) now rs"

subsection \<open>generateMockDeployments\<close>

datatype deployment_status = Deployed | RollingUpdate | ABTesting | Canary | Inactive

datatype infrastructure = Kubernetes | Serverless | VM

record model_metric =
  mm_timestamp :: int
  requestsPerSecond :: real
  errorRate :: real
  avgLatencyMs :: real
  cpuUtilization :: real
  memoryUtilization :: real
  predictionAccuracy :: "real option"

record deployment =
  d_id :: string
  d_modelId :: string
  d_version :: string
  d_environment :: string
  d_status :: deployment_status
  deployedAt :: int
  trafficSplit :: "(string \<times> real) list option"
  d_metrics :: "model_metric list option"
  d_infrastructure :: infrastructure
  region :: string
  monitoringEnabled :: bool

text \<open>The metrics of the production deployment: the sixth field reads one random number
  to decide whether it reads another.\<close>

definition productionMetric :: "int \<Rightarrow> nat \<Rightarrow> random_source \<Rightarrow> model_metric \<times> random_source" where
  "productionMetric now i rs =
     (if rs !! 5 * 0.1 > 0.05 then
        (\<lparr> mm_timestamp = now - (24 - int i) * 3600000,
           requestsPerSecond = of_int \<lfloor>rs !! 0 * 100\<rfloor> + 50,
           errorRate = toFixed 3 (rs !! 1 * 0.01),
           avgLatencyMs = of_int \<lfloor>rs !! 2 * 50\<rfloor> + 20,
           cpuUtilization = toFixed 2 (rs !! 3 * 0.8),
           memoryUtilization = toFixed 2 (rs !! 4 * 0.7),
           predictionAccuracy = Some (toFixed 3 (rs !! 6 * 0.05 + 0.9)) \<rparr>,
         sdrop 7 rs)
      else
        (\<lparr> mm_timestamp = now - (24 - int i) * 3600000,
           requestsPerSecond = of_int \<lfloor>rs !! 0 * 100\<rfloor> + 50,
           errorRate = toFixed 3 (rs !! 1 * 0.01),
           avgLatencyMs = of_int \<lfloor>rs !! 2 * 50\<rfloor> + 20,
           cpuUtilization = toFixed 2 (rs !! 3 * 0.8),
           memoryUtilization = toFixed 2 (rs !! 4 * 0.7),
           predictionAccuracy = None \<rparr>,
         sdrop 6 rs))"

definition canaryMetric :: "int \<Rightarrow> nat \<Rightarrow> random_source \<Rightarrow> model_metric \<times> random_source" where
  "canaryMetric now i rs =
     (\<lparr> mm_timestamp = now - (24 - int i) * 3600000,
        requestsPerSecond = of_int \<lfloor>rs !! 0 * 10\<rfloor> + 5,
        errorRate = toFixed 3 (rs !! 1 * 0.02),
        avgLatencyMs = of_int \<lfloor>rs !! 2 * 70\<rfloor> + 30,
        cpuUtilization = toFixed 2 (rs !! 3 * 0.3),
        memoryUtilization = toFixed 2 (rs !! 4 * 0.2),
        predictionAccuracy = None \<rparr>,
      sdrop 5 rs)"

text \<open>The object \<^verbatim>\<open>{ [modelId]: 0.1, 'previous_model_id': 0.9 }\<close>: a second
  definition of a key overwrites the first in its place.\<close>

definition generateMockDeployments ::
  "string \<Rightarrow> int \<Rightarrow> random_source \<Rightarrow> uuid_source \<Rightarrow> deployment list \<times> random_source \<times> uuid_source" where
  "generateMockDeployments modelId now rs us =
     (let (metrics1, rs1) = mapWithSource (productionMetric now) [0..<24] rs;
          (metrics2, rs2) = mapWithSource (canaryMetric now) [0..<24] rs1
      in ([ \<lparr> d_id = us !! 0,
               d_modelId = modelId,
               d_version = ''1.0'',
               d_environment = ''production'',
               d_status = Deployed,
               deployedAt = now - msPerDay * 5,
               trafficSplit = None,
               d_metrics = Some metrics1,
               d_infrastructure = Kubernetes,
               region = ''us-east-1'',
               monitoringEnabled = True \<rparr>,
             \<lparr> d_id = us !! 1,
               d_modelId = modelId,
               d_version = ''1.1-canary'',
               d_environment = ''canary'',
               d_status = Canary,
               deployedAt = now - msPerDay,
               trafficSplit = Some (AList.update ''previous_model_id'' 0.9 [(modelId, 0.1)]),
               d_metrics = Some metrics2,
               d_infrastructure = Serverless,
               region = ''us-west-2'',
               monitoringEnabled = True \<rparr> ],
          rs2, sdrop 2 us))"

subsection \<open>generateMockFeatures\<close>

datatype feature_type = NumericFeature | CategoricalFeature | TextFeature | ImageFeature

record used_by =
  ub_modelId :: string
  ub_modelName :: string
  ub_version :: string

record data_quality =
  missingRate :: real
  outlierCount :: real
  distinctCount :: real

record feature_entry =
  f_id :: string
  f_name :: string
  f_description :: string
  f_type :: feature_type
  f_version :: real
  f_source :: string
  lastUpdated :: int
  f_schema :: "(string \<times> string) list"
  usedByModels :: "used_by list"
  lineage :: "string list"
  dataQualityMetrics :: data_quality

definition baseFeatures :: "string list" where
  "baseFeatures = [''user_id'', ''item_id'', ''category'', ''price'', ''reviews_count'',
     ''age_group'', ''country'', ''engagement_score'']"

text \<open>The feature at index \<open>i\<close> reads one identifier and four random numbers.\<close>

definition mockFeature :: "int \<Rightarrow> random_source \<Rightarrow> uuid_source \<Rightarrow> nat \<Rightarrow> string \<Rightarrow> feature_entry" where
  "mockFeature now rs us i name =
     \<lparr> f_id = us !! i,
       f_name = name,
       f_description = ''Description for '' @ name,
       f_type = (if i mod 3 = 0 then NumericFeature else CategoricalFeature),
       f_version = 1,
       f_source = ''data_pipeline_v'' @ (if i mod 2 = 0 then ''1'' else ''2''),
       lastUpdated = timeClip (real_of_int now - rs !! (4 * i) * 86400000 * 30),
       f_schema = [(''value'', if i mod 3 = 0 then ''float'' else ''string'')],
       usedByModels = [\<lparr> ub_modelId = ''model-123'', ub_modelName = ''ChurnPredictor'', ub_version = ''1.0'' \<rparr>],
       lineage = [''raw_user_data.'' @ name, ''processed_user_data.'' @ name @ ''_normalized''],
       dataQualityMetrics =
         \<lparr> missingRate = toFixed 2 (rs !! (4 * i + 1) * 0.1),
           outlierCount = of_int \<lfloor>rs !! (4 * i + 2) * 50\<rfloor>,
           distinctCount = of_int \<lfloor>rs !! (4 * i + 3) * 1000\<rfloor> + 10 \<rparr> \<rparr>"

definition generateMockFeatures ::
  "int \<Rightarrow> random_source \<Rightarrow> uuid_source \<Rightarrow> feature_entry list \<times> random_source \<times> uuid_source" where
  "generateMockFeatures now rs us =
     (map (\<lambda>(i, name). mockFeature now rs us i name) (enumerate 0 baseFeatures),
      sdrop (4 * length baseFeatures) rs, sdrop (length baseFeatures) us)"

subsection \<open>generateMockAlerts\<close>

datatype alert_status = Active | Resolved | Acknowledged

datatype severity = Low | Medium | High | Critical

record alert =
  a_id :: string
  a_modelId :: string
  a_modelName :: string
  metric :: string
  threshold :: real
  currentValue :: real
  triggeredAt :: int
  a_status :: alert_status
  a_severity :: severity
  message :: string
  assignedTo :: "string option"
  resolutionNotes :: "string option"

definition generateMockAlerts :: "int \<Rightarrow> uuid_source \<Rightarrow> alert list \<times> uuid_source" where
  "generateMockAlerts now us =
     ([ \<lparr> a_id = us !! 0,
          a_modelId = ''model-123'',
          a_modelName = ''ChurnPredictor'',
          metric = ''accuracy_drop'',
          threshold = 0.85,
          currentValue = 0.82,
          triggeredAt = now - 3600000 * 2,
          a_status = Active,
          a_severity = High,
          message = ''Accuracy dropped below threshold for ChurnPredictor v1.0 in production!'',
          assignedTo = Some ''John Doe'',
          resolutionNotes = None \<rparr>,
        \<lparr> a_id = us !! 1,
          a_modelId = ''model-456'',
          a_modelName = ''RecommendationEngine'',
          metric = ''latency_spike'',
          threshold = 100,
          currentValue = 125,
          triggeredAt = now - 3600000 * 24,
          a_status = Resolved,
          a_severity = Medium,
          message = ''Latency spike detected for RecommendationEngine v2.1. Investigating...'',
          assignedTo = None,
          resolutionNotes = Some ''Scaling group adjusted, latency normalized.'' \<rparr>,
        \<lparr> a_id = us !! 2,
          a_modelId = ''model-123'',
          a_modelName = ''ChurnPredictor'',
          metric = ''data_drift'',
          threshold = 0.3,
          currentValue = 0.35,
          triggeredAt = now - 3600000 * 5,
          a_status = Active,
          a_severity = Critical,
          message = ''Significant data drift detected in input features for ChurnPredictor v1.0!'',
          assignedTo = Some ''Jane Smith'',
          resolutionNotes = None \<rparr> ],
      sdrop 3 us)"

subsection \<open>generateMockAuditLogs\<close>

datatype target_type = TargetMLModel | TargetDeployment | TargetAlert | TargetFeature

record audit_entry =
  l_id :: string
  l_timestamp :: int
  actor :: string
  action :: string
  targetType :: target_type
  targetId :: string
  details :: "(string \<times> jsval) list"

definition generateMockAuditLogs :: "int \<Rightarrow> uuid_source \<Rightarrow> audit_entry list \<times> uuid_source" where
  "generateMockAuditLogs now us =
     ([ \<lparr> l_id = us !! 0,
          l_timestamp = now - msPerDay * 10,
          actor = ''Admin User'',
          action = ''model_retrained'',
          targetType = TargetMLModel,
          targetId = ''model-123'',
          details = [(''modelName'', JStr ''ChurnPredictor''), (''oldVersion'', JStr ''0.9''),
                     (''newVersion'', JStr ''1.0''), (''accuracyImprovement'', JStr ''2%'')] \<rparr>,
        \<lparr> l_id = us !! 1,
          l_timestamp = now - msPerDay * 5,
          actor = ''CI/CD Pipeline'',
          action = ''model_deployed'',
          targetType = TargetDeployment,
          targetId = ''dep-789'',
          details = [(''modelName'', JStr ''ChurnPredictor''), (''version'', JStr ''1.0''),
                     (''environment'', JStr ''production''), (''region'', JStr ''us-east-1'')] \<rparr>,
        \<lparr> l_id = us !! 2,
          l_timestamp = now - 3600000 * 2,
          actor = ''Monitoring System'',
          action = ''alert_triggered'',
          targetType = TargetAlert,
          targetId = ''alert-101'',
          details = [(''alertName'', JStr ''accuracy_drop''), (''modelName'', JStr ''ChurnPredictor''),
                     (''severity'', JStr ''High'')] \<rparr> ],
      sdrop 3 us)"

section \<open>The models and the state of MockDataProvider\<close>

datatype model_status = Production | Staging | Training | Archived

datatype hpo_status = Pending | Running | Completed | Failed

record hpo_run =
  h_id :: string
  h_modelId :: string
  h_status :: hpo_status
  startedAt :: int
  completedAt :: "int option"
  strategy :: jsval
  searchSpace :: jsval
  bestParameters :: "jsval option"
  bestMetricValue :: "real option"
  trials :: "jsval list"

record perf_point =
  pp_date :: int
  pp_accuracy :: real

record cost_entry =
  ce_date :: int
  cost :: real
  cpuHours :: real
  gpuHours :: real

record ml_model =
  m_id :: string
  m_name :: string
  m_version :: string
  accuracy :: real
  m_status :: model_status
  performanceHistory :: "perf_point list"
  metricsHistory :: "perf_entry list"
  hyperparameters :: "(string \<times> jsval) list"
  featureImportance :: "feature_importance list"
  xaiInsights :: "xai_insight list"
  deploymentStatus :: "deployment_status option"
  deploymentHistory :: "deployment list option"
  costHistory :: "cost_entry list option"
  dataDriftHistory :: "drift_report list option"
  hpoRuns :: "hpo_run list option"

text \<open>\<^verbatim>\<open>.map(d => ({ date: d.date, accuracy: d.accuracy }))\<close>\<close>

definition dateAccuracy :: "perf_entry \<Rightarrow> perf_point" where
  "dateAccuracy d = \<lparr> pp_date = pe_date d, pp_accuracy = pe_accuracy d \<rparr>"

text \<open>\<^verbatim>\<open>generateMockPerformanceHistory(days).map(d => ({ date: d.date, cost: ..., cpuHours: ..., gpuHours: ... }))\<close>:
  the history is generated first, then every entry reads three random numbers.\<close>

definition mockCostHistory ::
  "time_zone \<Rightarrow> int \<Rightarrow> real \<Rightarrow> real \<Rightarrow> real \<Rightarrow> real \<Rightarrow> real \<Rightarrow> int \<Rightarrow> random_source \<Rightarrow> cost_entry list \<times> random_source" where
  "mockCostHistory tz days c1 c0 p1 p0 g1 now rs =
     (let (hist, rs') = generateMockPerformanceHistory tz days now rs
      in (map (\<lambda>(k, d). \<lparr> ce_date = pe_date d,
                            cost = toFixed 2 (rs' !! (3 * k) * c1 + c0),
                            cpuHours = toFixed 2 (rs' !! (3 * k + 1) * p1 + p0),
                            gpuHours = toFixed 2 (rs' !! (3 * k + 2) * g1) \<rparr>) (enumerate 0 hist),
          sdrop (3 * length hist) rs'))"

text \<open>The three models of the initial state, in the order in which their fields are
  evaluated.\<close>

definition mockModel123 :: "time_zone \<Rightarrow> int \<Rightarrow> random_source \<Rightarrow> uuid_source \<Rightarrow> ml_model \<times> random_source \<times> uuid_source" where
  "mockModel123 tz now rs us =
     (let (perf, rs1) = generateMockPerformanceHistory tz 30 now rs;
          (metrics, rs2) = generateMockPerformanceHistory tz 30 now rs1;
          (importance, rs3) = generateMockFeatureImportance 10 rs2;
          (xai, us1) = generateMockXAIInsights now us;
          (deployments, rs4, us2) = generateMockDeployments ''model-123'' now rs3 us1;
          (costs, rs5) = mockCostHistory tz 30 500 100 20 5 5 now rs4;
          (drift, rs6) = generateMockDataDriftReport tz 10 now rs5
      in (\<lparr> m_id = ''model-123'',
             m_name = ''ChurnPredictor'',
             m_version = ''1.0'',
             accuracy = 92.5,
             m_status = Production,
             performanceHistory = map dateAccuracy perf,
             metricsHistory = metrics,
             hyperparameters = [(''learningRate'', JNum 0.01), (''epochs'', JNum 100), (''optimizer'', JStr ''Adam'')],
             featureImportance = importance,
             xaiInsights = xai,
             deploymentStatus = Some Deployed,
             deploymentHistory = Some deployments,
             costHistory = Some costs,
             dataDriftHistory = Some drift,
             hpoRuns = None \<rparr>,
          rs6, us2))"

definition mockModel456 :: "time_zone \<Rightarrow> int \<Rightarrow> random_source \<Rightarrow> ml_model \<times> random_source" where
  "mockModel456 tz now rs =
     (let (perf, rs1) = generateMockPerformanceHistory tz 30 now rs;
          (metrics, rs2) = generateMockPerformanceHistory tz 30 now rs1;
          (importance, rs3) = generateMockFeatureImportance 15 rs2;
          (costs, rs4) = mockCostHistory tz 30 300 50 15 3 3 now rs3;
          (drift, rs5) = generateMockDataDriftReport tz 10 now rs4
      in (\<lparr> m_id = ''model-456'',
             m_name = ''RecommendationEngine'',
             m_version = ''2.1'',
             accuracy = 88.1,
             m_status = Staging,
             performanceHistory = map dateAccuracy perf,
             metricsHistory = metrics,
             hyperparameters = [(''embeddingDim'', JNum 64), (''numLayers'', JNum 3), (''activation'', JStr ''ReLU'')],
             featureImportance = importance,
             xaiInsights = [],
             deploymentStatus = Some Inactive,
             deploymentHistory = Some [],
             costHistory = Some costs,
             dataDriftHistory = Some drift,
             hpoRuns = None \<rparr>,
          rs5))"

definition mockModel789 :: "time_zone \<Rightarrow> int \<Rightarrow> random_source \<Rightarrow> ml_model \<times> random_source" where
  "mockModel789 tz now rs =
     (let (perf, rs1) = generateMockPerformanceHistory tz 10 now rs;
          (metrics, rs2) = generateMockPerformanceHistory tz 10 now rs1;
          (importance, rs3) = generateMockFeatureImportance 8 rs2;
          (costs, rs4) = mockCostHistory tz 10 100 20 10 2 2 now rs3;
          (drift, rs5) = generateMockDataDriftReport tz 5 now rs4
      in (\<lparr> m_id = ''model-789'',
             m_name = ''FraudDetector'',
             m_version = ''0.9-beta'',
             accuracy = 99.2,
             m_status = Training,
             performanceHistory = map dateAccuracy perf,
             metricsHistory = metrics,
             hyperparameters = [(''treeDepth'', JNum 10), (''estimators'', JNum 200), (''learningRate'', JNum 0.05)],
             featureImportance = importance,
             xaiInsights = [],
             deploymentStatus = Some Inactive,
             deploymentHistory = Some [],
             costHistory = Some costs,
             dataDriftHistory = Some drift,
             hpoRuns = None \<rparr>,
          rs5))"

text \<open>
  What a suspended workflow does when its timer fires: the callback of
  \<^verbatim>\<open>setTimeout\<close> in \<^verbatim>\<open>retrainMlModel\<close>, and the rest of an
  \<^verbatim>\<open>async\<close> function after its
  \<^verbatim>\<open>await new Promise(resolve => setTimeout(resolve, ms))\<close>, with the values the
  closure holds.
\<close>

record hpo_config =
  c_strategy :: jsval
  c_searchSpace :: jsval

datatype pending =
    RetrainTimer string
  | DeployTimer ml_model string deployment
  | RollbackTimer string
  | TrafficSplitTimer string "(string \<times> real) list"
  | HPOTimer string hpo_config hpo_run "ml_model list"

text \<open>The four \<^verbatim>\<open>useState\<close> cells of the provider, and the timers that are set
  (each with the time at which it is due).\<close>

record dashboard =
  mockModels :: "ml_model list"
  mockFeatures :: "feature_entry list"
  mockAlerts :: "alert list"
  mockAuditLogs :: "audit_entry list"
  timers :: "(int \<times> pending) list"

definition initialDashboard :: "time_zone \<Rightarrow> int \<Rightarrow> random_source \<Rightarrow> uuid_source \<Rightarrow> dashboard" where
  "initialDashboard tz now rs us =
     (let (m1, rs1, us1) = mockModel123 tz now rs us;
          (m2, rs2) = mockModel456 tz now rs1;
          (m3, rs3) = mockModel789 tz now rs2;
          (features, rs4, us2) = generateMockFeatures now rs3 us1;
          (alerts, us3) = generateMockAlerts now us2;
          (logs, us4) = generateMockAuditLogs now us3
      in \<lparr> mockModels = [m1, m2, m3],
           mockFeatures = features,
           mockAlerts = alerts,
           mockAuditLogs = logs,
           timers = [] \<rparr>)"

text \<open>\<^verbatim>\<open>mockModels.flatMap(m => m.deploymentHistory || [])\<close>\<close>

definition orEmpty :: "'a list option \<Rightarrow> 'a list" where
  "orEmpty xs = (case xs of None \<Rightarrow> [] | Some ys \<Rightarrow> ys)"

definition allDeployments :: "dashboard \<Rightarrow> deployment list" where
  "allDeployments d = concat (map (\<lambda>m. orEmpty (deploymentHistory m)) (mockModels d))"

section \<open>The operations of the context\<close>

text \<open>
  Each operation calls the setters of the \<^verbatim>\<open>useState\<close> cells with updater
  functions. React applies the updater of the first setter that a task calls at once,
  since no update of the provider is pending then; the updater of a second setter
  (\<^verbatim>\<open>setMockAuditLogs\<close> after \<^verbatim>\<open>setMockModels\<close> or
  \<^verbatim>\<open>setMockAlerts\<close>) is queued and applied by the next render of the provider.
  That render evaluates the arguments \<^verbatim>\<open>generateMockFeatures()\<close>,
  \<^verbatim>\<open>generateMockAlerts()\<close> and \<^verbatim>\<open>generateMockAuditLogs()\<close> of its
  \<^verbatim>\<open>useState\<close> calls once more and drops the results, before it comes to the
  queued updater of the log: the identifier of a queued audit entry is the one that
  \<^verbatim>\<open>uuidv4()\<close> returns after the 8 + 3 + 3 identifiers of these three calls.
  The random numbers of an event are all read by first setters, before the render. The
  clock that a queued updater reads is taken to be the clock of the event.
\<close>

definition renderIds :: nat where
  "renderIds = 8 + 3 + 3"

subsection \<open>retrainMlModel\<close>

definition retrainTraining :: "string \<Rightarrow> ml_model \<Rightarrow> random_source \<Rightarrow> ml_model \<times> random_source" where
  "retrainTraining i model rs =
     (if m_id model = i
      then (model\<lparr> m_status := Training, accuracy := toFixed 2 (accuracy model - shd rs * 5) \<rparr>, stl rs)
      else (model, rs))"

definition retrainStaging :: "time_zone \<Rightarrow> string \<Rightarrow> int \<Rightarrow> ml_model \<Rightarrow> random_source \<Rightarrow> ml_model \<times> random_source" where
  "retrainStaging tz i now model rs =
     (if m_id model = i
      then (let (hist, rs') = generateMockPerformanceHistory tz 30 now (stl rs)
            in (model\<lparr> m_status := Staging,
                       accuracy := toFixed 2 (accuracy model + shd rs * 7),
                       performanceHistory := map dateAccuracy hist \<rparr>, rs'))
      else (model, rs))"

definition retrainMlModel :: "string \<Rightarrow> int \<Rightarrow> random_source \<Rightarrow> dashboard \<Rightarrow> dashboard" where
  "retrainMlModel i now rs d =
     d\<lparr> mockModels := fst (mapWithSource (retrainTraining i) (mockModels d) rs),
        timers := timers d @ [(now + 5000, RetrainTimer i)] \<rparr>"

definition retrainTimer :: "time_zone \<Rightarrow> string \<Rightarrow> int \<Rightarrow> random_source \<Rightarrow> dashboard \<Rightarrow> dashboard" where
  "retrainTimer tz i now rs d =
     d\<lparr> mockModels := fst (mapWithSource (retrainStaging tz i now) (mockModels d) rs) \<rparr>"

subsection \<open>deployMlModel\<close>

definition deployMlModel :: "ml_model \<Rightarrow> string \<Rightarrow> int \<Rightarrow> uuid_source \<Rightarrow> dashboard \<Rightarrow> dashboard" where
  "deployMlModel model environment now us d =
     (let newDeployment =
            \<lparr> d_id = shd us,
              d_modelId = m_id model,
              d_version = m_version model,
              d_environment = environment,
              d_status = RollingUpdate,
              deployedAt = now,
              trafficSplit = None,
              d_metrics = Some [],
              d_infrastructure = Kubernetes,
              region = ''us-east-1'',
              monitoringEnabled = True \<rparr>
      in d\<lparr> mockModels := map (\<lambda>m.
                if m_id m = m_id model
                then m\<lparr> deploymentHistory := Some (orEmpty (deploymentHistory m) @ [newDeployment]),
                        deploymentStatus := Some RollingUpdate \<rparr>
                else m) (mockModels d),
             timers := timers d @ [(now + 3000, DeployTimer model environment newDeployment)] \<rparr>)"

definition deployTimer :: "ml_model \<Rightarrow> string \<Rightarrow> deployment \<Rightarrow> int \<Rightarrow> uuid_source \<Rightarrow> dashboard \<Rightarrow> dashboard" where
  "deployTimer model environment newDeployment now us d =
     d\<lparr> mockModels := map (\<lambda>m.
            if m_id m = m_id model
            then m\<lparr> deploymentHistory := map_option (map (\<lambda>dep.
                      if d_id dep = d_id newDeployment then dep\<lparr> d_status := Deployed \<rparr> else dep))
                      (deploymentHistory m),
                    deploymentStatus := Some Deployed \<rparr>
            else m) (mockModels d),
        mockAuditLogs := mockAuditLogs d @
          [\<lparr> l_id = us !! renderIds,
             l_timestamp = now,
             actor = ''System'',
             action = ''model_deployed'',
             targetType = TargetDeployment,
             targetId = d_id newDeployment,
             details = [(''modelName'', JStr (m_name model)), (''version'', JStr (m_version model)),
                        (''environment'', JStr environment)] \<rparr>] \<rparr>"

subsection \<open>rollbackDeployment\<close>

definition rollbackDeployment :: "string \<Rightarrow> int \<Rightarrow> dashboard \<Rightarrow> dashboard" where
  "rollbackDeployment deploymentId now d =
     d\<lparr> mockModels := map (\<lambda>m.
            m\<lparr> deploymentHistory := map_option (map (\<lambda>dep.
                  if d_id dep = deploymentId then dep\<lparr> d_status := Inactive \<rparr> else dep))
                  (deploymentHistory m) \<rparr>) (mockModels d),
        timers := timers d @ [(now + 2000, RollbackTimer deploymentId)] \<rparr>"

definition rollbackTimer :: "string \<Rightarrow> int \<Rightarrow> uuid_source \<Rightarrow> dashboard \<Rightarrow> dashboard" where
  "rollbackTimer deploymentId now us d =
     d\<lparr> mockAuditLogs := mockAuditLogs d @
          [\<lparr> l_id = shd us,
             l_timestamp = now,
             actor = ''System'',
             action = ''deployment_rolled_back'',
             targetType = TargetDeployment,
             targetId = deploymentId,
             details = [(''deploymentId'', JStr deploymentId)] \<rparr>] \<rparr>"

subsection \<open>updateTrafficSplit\<close>

definition updateTrafficSplit :: "string \<Rightarrow> (string \<times> real) list \<Rightarrow> int \<Rightarrow> dashboard \<Rightarrow> dashboard" where
  "updateTrafficSplit deploymentId split now d =
     d\<lparr> mockModels := map (\<lambda>m.
            m\<lparr> deploymentHistory := map_option (map (\<lambda>dep.
                  if d_id dep = deploymentId then dep\<lparr> trafficSplit := Some split \<rparr> else dep))
                  (deploymentHistory m) \<rparr>) (mockModels d),
        timers := timers d @ [(now + 1000, TrafficSplitTimer deploymentId split)] \<rparr>"

definition trafficSplitTimer :: "string \<Rightarrow> (string \<times> real) list \<Rightarrow> int \<Rightarrow> uuid_source \<Rightarrow> dashboard \<Rightarrow> dashboard" where
  "trafficSplitTimer deploymentId split now us d =
     d\<lparr> mockAuditLogs := mockAuditLogs d @
          [\<lparr> l_id = shd us,
             l_timestamp = now,
             actor = ''System'',
             action = ''traffic_split_updated'',
             targetType = TargetDeployment,
             targetId = deploymentId,
             details = [(''deploymentId'', JStr deploymentId),
                        (''trafficSplit'', JObj (map (\<lambda>(k, v). (k, JNum v)) split))] \<rparr>] \<rparr>"

subsection \<open>createHPOptionRun\<close>

text \<open>
  The argument \<^verbatim>\<open>config\<close> has the type \<^verbatim>\<open>any\<close>. Of
  \<^verbatim>\<open>undefined\<close> and \<^verbatim>\<open>null\<close> (here \<open>None\<close>) reading
  \<^verbatim>\<open>config.strategy\<close> throws a \<^verbatim>\<open>TypeError\<close> while the new run is being
  built: the promise of the call is rejected, no setter is called and no timer is set. Of
  every other value the two properties are read, \<^verbatim>\<open>undefined\<close> where there is
  none.
\<close>

datatype js_error = TypeError

definition createHPOptionRun :: "string \<Rightarrow> hpo_config option \<Rightarrow> int \<Rightarrow> uuid_source \<Rightarrow> dashboard \<Rightarrow> js_error + dashboard" where
  "createHPOptionRun modelId config now us d =
     (case config of
        None \<Rightarrow> Inl TypeError
      | Some c \<Rightarrow>
          (let newRun =
                 \<lparr> h_id = shd us,
                   h_modelId = modelId,
                   h_status = Running,
                   startedAt = now,
                   completedAt = None,
                   strategy = c_strategy c,
                   searchSpace = c_searchSpace c,
                   bestParameters = None,
                   bestMetricValue = None,
                   trials = [] \<rparr>
           in Inr (d\<lparr> mockModels := map (\<lambda>m.
                     if m_id m = modelId
                     then m\<lparr> hpoRuns := Some (orEmpty (hpoRuns m) @ [newRun]) \<rparr>
                     else m) (mockModels d),
                  timers := timers d @ [(now + 5000, HPOTimer modelId c newRun (mockModels d))] \<rparr>)))"

text \<open>The audit entry reads the model's name in \<^verbatim>\<open>mockModels\<close> as the closure of
  \<^verbatim>\<open>createHPOptionRun\<close> holds it: the models at the time of the call.\<close>

definition hpoTimer :: "string \<Rightarrow> hpo_config \<Rightarrow> hpo_run \<Rightarrow> ml_model list \<Rightarrow> int \<Rightarrow> uuid_source \<Rightarrow> dashboard \<Rightarrow> dashboard" where
  "hpoTimer modelId config newRun closureModels now us d =
     d\<lparr> mockModels := map (\<lambda>m.
            if m_id m = modelId
            then m\<lparr> hpoRuns := map_option (map (\<lambda>run.
                      if h_id run = h_id newRun
                      then run\<lparr> h_status := Completed,
                                completedAt := Some now,
                                bestMetricValue := Some 0.93,
                                bestParameters := Some (JObj [(''learningRate'', JNum 0.005), (''batchSize'', JNum 32)]) \<rparr>
                      else run)) (hpoRuns m) \<rparr>
            else m) (mockModels d),
        mockAuditLogs := mockAuditLogs d @
          [\<lparr> l_id = us !! renderIds,
             l_timestamp = now,
             actor = ''User'',
             action = ''hpo_run_created'',
             targetType = TargetMLModel,
             targetId = modelId,
             details = [(''modelName'', case find (\<lambda>m. m_id m = modelId) closureModels of
                                          None \<Rightarrow> JUndefined | Some m \<Rightarrow> JStr (m_name m)),
                        (''strategy'', c_strategy config)] \<rparr>] \<rparr>"

subsection \<open>acknowledgeAlert and resolveAlert\<close>

definition acknowledgeAlert :: "string \<Rightarrow> string \<Rightarrow> int \<Rightarrow> uuid_source \<Rightarrow> dashboard \<Rightarrow> dashboard" where
  "acknowledgeAlert alertId notes now us d =
     d\<lparr> mockAlerts := map (\<lambda>a.
            if a_id a = alertId
            then a\<lparr> a_status := Acknowledged, assignedTo := Some ''Current User'', resolutionNotes := Some notes \<rparr>
            else a) (mockAlerts d),
        mockAuditLogs := mockAuditLogs d @
          [\<lparr> l_id = us !! renderIds,
             l_timestamp = now,
             actor = ''Current User'',
             action = ''alert_acknowledged'',
             targetType = TargetAlert,
             targetId = alertId,
             details = [(''notes'', JStr notes)] \<rparr>] \<rparr>"

definition resolveAlert :: "string \<Rightarrow> string \<Rightarrow> int \<Rightarrow> uuid_source \<Rightarrow> dashboard \<Rightarrow> dashboard" where
  "resolveAlert alertId notes now us d =
     d\<lparr> mockAlerts := map (\<lambda>a.
            if a_id a = alertId
            then a\<lparr> a_status := Resolved,
                    resolutionNotes := Some (if notes = [] then ''Resolved manually.'' else notes) \<rparr>
            else a) (mockAlerts d),
        mockAuditLogs := mockAuditLogs d @
          [\<lparr> l_id = us !! renderIds,
             l_timestamp = now,
             actor = ''Current User'',
             action = ''alert_resolved'',
             targetType = TargetAlert,
             targetId = alertId,
             details = [(''notes'', JStr notes)] \<rparr>] \<rparr>"

subsection \<open>The dashboard as a transition system\<close>

text \<open>
  An event is a call of one of the seven operations, or the firing of a timer that is set
  and due. The environment of an event is the time zone, the clock, and the random
  numbers and the identifiers that \<^verbatim>\<open>Math.random()\<close> and \<^verbatim>\<open>uuidv4()\<close>
  return from the event on. A call of \<^verbatim>\<open>createHPOptionRun\<close> that throws leaves
  the state as it is.
\<close>

datatype event =
    RetrainMlModel string
  | DeployMlModel ml_model string
  | RollbackDeployment string
  | UpdateTrafficSplit string "(string \<times> real) list"
  | CreateHPOptionRun string "hpo_config option"
  | AcknowledgeAlert string string
  | ResolveAlert string string
  | TimerFires nat

fun runTimer :: "time_zone \<Rightarrow> pending \<Rightarrow> int \<Rightarrow> random_source \<Rightarrow> uuid_source \<Rightarrow> dashboard \<Rightarrow> dashboard" where
  "runTimer tz (RetrainTimer i) now rs us d = retrainTimer tz i now rs d"
| "runTimer tz (DeployTimer model environment newDeployment) now rs us d =
     deployTimer model environment newDeployment now us d"
| "runTimer tz (RollbackTimer deploymentId) now rs us d = rollbackTimer deploymentId now us d"
| "runTimer tz (TrafficSplitTimer deploymentId split) now rs us d =
     trafficSplitTimer deploymentId split now us d"
| "runTimer tz (HPOTimer modelId config newRun closureModels) now rs us d =
     hpoTimer modelId config newRun closureModels now us d"

fun step :: "time_zone \<Rightarrow> int \<Rightarrow> random_source \<Rightarrow> uuid_source \<Rightarrow> event \<Rightarrow> dashboard \<Rightarrow> dashboard" where
  "step tz now rs us (RetrainMlModel i) d = retrainMlModel i now rs d"
| "step tz now rs us (DeployMlModel model environment) d = deployMlModel model environment now us d"
| "step tz now rs us (RollbackDeployment deploymentId) d = rollbackDeployment deploymentId now d"
| "step tz now rs us (UpdateTrafficSplit deploymentId split) d = updateTrafficSplit deploymentId split now d"
| "step tz now rs us (CreateHPOptionRun modelId config) d =
     (case createHPOptionRun modelId config now us d of Inl err \<Rightarrow> d | Inr d' \<Rightarrow> d')"
| "step tz now rs us (AcknowledgeAlert alertId notes) d = acknowledgeAlert alertId notes now us d"
| "step tz now rs us (ResolveAlert alertId notes) d = resolveAlert alertId notes now us d"
| "step tz now rs us (TimerFires k) d =
     (if k < length (timers d) \<and> fst (timers d ! k) \<le> now
      then runTimer tz (snd (timers d ! k)) now rs us
             (d\<lparr> timers := take k (timers d) @ drop (Suc k) (timers d) \<rparr>)
      else d)"

inductive reachable :: "dashboard \<Rightarrow> bool" where
  initial: "reachable (initialDashboard tz now rs us)"
| after: "reachable d \<Longrightarrow> reachable (step tz now rs us e d)"

section \<open>DeepAnalysisTool\<close>

text \<open>
  The strings of the component are sequences of UTF-16 code units, as
  \<^verbatim>\<open>String.prototype.trim\<close> and \<^verbatim>\<open>String.prototype.replace\<close> see them; a
  literal of the source text is written with \<open>js\<close>.
\<close>

type_synonym jsstring = "16 word list"

definition js :: "string \<Rightarrow> jsstring" where
  "js s = map of_char s"

text \<open>White space and line terminators of ECMAScript.\<close>

definition isWhiteSpace :: "16 word \<Rightarrow> bool" where
  "isWhiteSpace c \<longleftrightarrow>
     c \<in> set [0x0009, 0x000A, 0x000B, 0x000C, 0x000D, 0x0020, 0x00A0, 0x1680, 0x2028, 0x2029,
                0x202F, 0x205F, 0x3000, 0xFEFF] \<or> (0x2000 \<le> c \<and> c \<le> 0x200A)"

definition trim :: "jsstring \<Rightarrow> jsstring" where
  "trim s = rev (dropWhile isWhiteSpace (rev (dropWhile isWhiteSpace s)))"

text \<open>\<^verbatim>\<open>a || b\<close> for a string \<open>a\<close> that may be undefined.\<close>

definition orElse :: "jsstring option \<Rightarrow> jsstring \<Rightarrow> jsstring" where
  "orElse a b = (case a of None \<Rightarrow> b | Some s \<Rightarrow> if s = [] then b else s)"

text \<open>
  \<^verbatim>\<open>string.replace(searchString, replaceValue)\<close> with two strings: the first
  occurrence of the search string is replaced, and in the replacement \<open>$$\<close> stands
  for a dollar sign, \<open>$&\<close> for the match, and \<open>$\<close> with a backquote or a quote
  for the text before or after the match (there are no groups, so every other \<open>$\<close>
  stands for itself).
\<close>

fun indexOf :: "jsstring \<Rightarrow> jsstring \<Rightarrow> nat option" where
  "indexOf p [] = (if p = [] then Some 0 else None)"
| "indexOf p (c # cs) =
     (if take (length p) (c # cs) = p then Some 0 else map_option Suc (indexOf p cs))"

fun getSubstitution :: "jsstring \<Rightarrow> jsstring \<Rightarrow> jsstring \<Rightarrow> jsstring \<Rightarrow> jsstring" where
  "getSubstitution matched before after [] = []"
| "getSubstitution matched before after [c] = [c]"
| "getSubstitution matched before after (c # c' # cs) =
     (if c = 0x24 \<and> c' = 0x24 then 0x24 # getSubstitution matched before after cs
      else if c = 0x24 \<and> c' = 0x26 then matched @ getSubstitution matched before after cs
      else if c = 0x24 \<and> c' = 0x60 then before @ getSubstitution matched before after cs
      else if c = 0x24 \<and> c' = 0x27 then after @ getSubstitution matched before after cs
      else c # getSubstitution matched before after (c' # cs))"

definition replace :: "jsstring \<Rightarrow> jsstring \<Rightarrow> jsstring \<Rightarrow> jsstring" where
  "replace searchString replaceValue s =
     (case indexOf searchString s of
        None \<Rightarrow> s
      | Some pos \<Rightarrow>
          take pos s @
          getSubstitution searchString (take pos s) (drop (pos + length searchString) s) replaceValue @
          drop (pos + length searchString) s)"

text \<open>The template literal, line by line.\<close>

definition ANALYSIS_PROMPT_TEMPLATE :: jsstring where
  "ANALYSIS_PROMPT_TEMPLATE = js (concat (map (\<lambda>line. line @ [CHR 0x0A])
     [
       [],
       ''# Deep File Analysis Prompt'',
       [],
       ''**Role & Objective**'',
       ''Act as a world-class senior engineer and technical analyst. Perform a deep, expert-level analysis of the provided file. Prevent shallow summaries; produce thorough, structured, long-form analysis that treats the file as a meaningful artifact.'',
       [],
       ''**Core Principles**'',
       ''- One file = one full analysis.'',
       ''- Depth is mandatory.'',
       ''- Reveal intent, skill, tradeoffs, meaning, risk, and future potential.'',
       ''- Output must be readable, structured, and opinionated.'',
       [],
       ''**Analysis Structure (Required)**'',
       [],
       ''1. **File Identity & Context**'',
       ''   - What the file is and why it exists.'',
       ''   - Implications of the file name and type.'',
       ''   - Architectural placement and lifecycle role.'',
       ''   - Failure impact (what breaks if removed).'',
       [],
       ''2. **Purpose & Intent**'',
       ''   - Primary and emergent purposes.'',
       ''   - Implicit assumptions and constraints.'',
       ''   - Anti-use cases.'',
       [],
       ''3. **Skills & Knowledge Embedded**'',
       ''   - Technical skills and domain expertise required.'',
       ''   - Experience level for safe modification.'',
       ''   - Common misunderstandings vs. expert recognition.'',
       [],
       ''4. **Craft, Structure & Design Decisions**'',
       ''   - Patterns used (intentional or accidental).'',
       ''   - Complexity justification and tradeoffs.'',
       ''   - Evidence of iteration or shortcuts.'',
       ''   - Fragility vs. resilience.'',
       [],
       ''5. **Semantic & Conceptual Meaning**'',
       ''   - Communication to other developers/systems.'',
       ''   - Values encoded (speed, safety, flexibility).'',
       ''   - Creator'' @ [CHR 0x27] @ ''s priorities and mindset.'',
       [],
       ''6. **Current Functional Role**'',
       ''   - Usage, dependencies (upstream/downstream).'',
       ''   - Performance/reliability implications.'',
       ''   - Operational importance.'',
       [],
       ''7. **Risk & Failure Analysis**'',
       ''   - Failure modes (silent vs. loud).'',
       ''   - Security/data risks.'',
       ''   - Scaling and maintenance risks.'',
       [],
       ''8. **Evolution & Refactor Potential**'',
       ''   - Likely evolution and refactoring signals.'',
       ''   - Safe vs. dangerous modification paths.'',
       ''   - Modernization opportunities.'',
       [],
       ''9. **Summary Narrative**'',
       ''   - Cohesive wrap-up of significance.'',
       ''   - Why ignoring this file would be a mistake.'',
       [],
       ''**Input**'',
       ''File Name: {{FILENAME}}'',
       ''File Content:'',
       ''{{CONTENT}}''
     ]))"

text \<open>
  The five \<^verbatim>\<open>useState\<close> cells, and the generative-AI library as the component
  sees it: making a client throws (an error with a message, or without one) or not, and
  a request returns a response (with a text, or without one) or throws.
\<close>

record tool_state =
  fileName :: jsstring
  fileContent :: jsstring
  analysis :: jsstring
  loading :: bool
  error :: jsstring

record request =
  rq_apiKey :: jsstring
  rq_model :: jsstring
  rq_contents :: jsstring
  rq_temperature :: real

datatype outcome = Returns "jsstring option" | Throws "jsstring option"

record gen_ai =
  newClient :: "jsstring \<Rightarrow> jsstring option option"
  generateContent :: "request \<Rightarrow> outcome"

text \<open>
  \<^verbatim>\<open>handleAnalyze\<close> returns the states that it sets, in their order (the state
  before the \<^verbatim>\<open>await\<close>, and the state at the end), and the requests that it sends.
\<close>

definition handleAnalyze :: "gen_ai \<Rightarrow> jsstring option \<Rightarrow> tool_state \<Rightarrow> tool_state list \<times> request list" where
  "handleAnalyze ai apiKey s =
     (if trim (fileName s) = [] \<or> trim (fileContent s) = []
      then ([s\<lparr> error := js ''Please provide both a file name and content.'' \<rparr>], [])
      else
        (let s1 = s\<lparr> loading := True, error := [], analysis := [] \<rparr>
         in case newClient ai (orElse apiKey []) of
              Some err \<Rightarrow>
                ([s1, s1\<lparr> error := orElse err (js ''An error occurred during analysis.''), loading := False \<rparr>], [])
            | None \<Rightarrow>
                (let prompt = replace (js ''{{CONTENT}}'') (fileContent s)
                       (replace (js ''{{FILENAME}}'') (fileName s) ANALYSIS_PROMPT_TEMPLATE);
                     rq = \<lparr> rq_apiKey = orElse apiKey [],
                            rq_model = js ''gemini-3-pro-preview'',
                            rq_contents = prompt,
                            rq_temperature = 0.7 \<rparr>
                 in case generateContent ai rq of
                      Returns text \<Rightarrow>
                        ([s1, s1\<lparr> analysis := orElse text (js ''No analysis generated.''), loading := False \<rparr>], [rq])
                    | Throws err \<Rightarrow>
                        ([s1, s1\<lparr> error := orElse err (js ''An error occurred during analysis.''), loading := False \<rparr>], [rq]))))"

section \<open>Auxiliary notions for the properties\<close>



text \<open>The identifiers of the records of each kind that a state holds.\<close>

definition modelIds :: "dashboard \<Rightarrow> string list" where
  "modelIds d = map m_id (mockModels d)"

definition deploymentIds :: "dashboard \<Rightarrow> string list" where
  "deploymentIds d = map d_id (allDeployments d)"

definition hpoRunIds :: "dashboard \<Rightarrow> string list" where
  "hpoRunIds d = map h_id (concat (map (\<lambda>m. orEmpty (hpoRuns m)) (mockModels d)))"

definition alertIds :: "dashboard \<Rightarrow> string list" where
  "alertIds d = map a_id (mockAlerts d)"

definition featureIds :: "dashboard \<Rightarrow> string list" where
  "featureIds d = map f_id (mockFeatures d)"

definition auditLogIds :: "dashboard \<Rightarrow> string list" where
  "auditLogIds d = map l_id (mockAuditLogs d)"

definition modelDeploymentIds :: "ml_model \<Rightarrow> string list" where
  "modelDeploymentIds m = map d_id (orEmpty (deploymentHistory m))"

definition modelRunIds :: "ml_model \<Rightarrow> string list" where
  "modelRunIds m = map h_id (orEmpty (hpoRuns m))"

text \<open>A model and the model in its place after an event: the same identifier, and no
  deployment or optimisation run gone.\<close>

definition keepsRecords :: "ml_model \<Rightarrow> ml_model \<Rightarrow> bool" where
  "keepsRecords m m' \<longleftrightarrow>
     m_id m' = m_id m \<and>
     set (modelDeploymentIds m) \<subseteq> set (modelDeploymentIds m') \<and>
     set (modelRunIds m) \<subseteq> set (modelRunIds m')"


text \<open>The states of a run and of a deployment that the workflows produce.\<close>

definition runHealthy :: "hpo_run \<Rightarrow> bool" where
  "runHealthy run \<longleftrightarrow>
     h_status run = Running \<or> (h_status run = Completed \<and> bestMetricValue run = Some 0.93)"

definition deploymentHealthy :: "deployment \<Rightarrow> bool" where
  "deploymentHealthy dep \<longleftrightarrow>
     d_status dep = Deployed \<or> d_status dep = RollingUpdate \<or> d_status dep = Canary \<or> d_status dep = Inactive"

definition noFailure :: "ml_model \<Rightarrow> bool" where
  "noFailure m \<longleftrightarrow>
     list_all runHealthy (orEmpty (hpoRuns m)) \<and> list_all deploymentHealthy (orEmpty (deploymentHistory m))"

text \<open>The run that the timer of \<^verbatim>\<open>createHPOptionRun\<close> makes of a run, at the
  time \<open>t\<close>.\<close>

definition completedRun :: "int \<Rightarrow> hpo_run \<Rightarrow> hpo_run" where
  "completedRun t run =
     run\<lparr> h_status := Completed,
          completedAt := Some t,
          bestMetricValue := Some 0.93,
          bestParameters := Some (JObj [(''learningRate'', JNum 0.005), (''batchSize'', JNum 32)]) \<rparr>"

text \<open>The events that are the firing of a timer of \<^verbatim>\<open>createHPOptionRun\<close> that is
  set and due.\<close>

definition isHPOTimer :: "pending \<Rightarrow> bool" where
  "isHPOTimer p = (case p of HPOTimer modelId config newRun closureModels \<Rightarrow> True | _ \<Rightarrow> False)"

definition hpoTimerDue :: "int \<Rightarrow> event \<Rightarrow> dashboard \<Rightarrow> bool" where
  "hpoTimerDue now e d =
     (case e of
        TimerFires k \<Rightarrow> k < length (timers d) \<and> fst (timers d ! k) \<le> now \<and> isHPOTimer (snd (timers d ! k))
      | _ \<Rightarrow> False)"

text \<open>The relation that \<^verbatim>\<open>generateMockDataDriftReport\<close> computes a report with.\<close>

definition driftConsistent :: "drift_report \<Rightarrow> bool" where
  "driftConsistent r \<longleftrightarrow>
     length (dr_features r) = 5 \<and>
     overallDriftScore r = toFixed 2 (sum_list (map driftScore (dr_features r)) / 5) \<and>
     driftDetected r = (0.25 < overallDriftScore r)"





text \<open>Two time zones for examples: UTC, and a zone that is five hours behind UTC until
  8 March 2026, 7:00 UTC, when its clocks go from 2:00 to 3:00, and four hours behind from
  then on.\<close>

definition utcZone :: time_zone where
  "utcZone t isUTC = 0"

definition springZone :: time_zone where
  "springZone t isUTC =
     (if t < (if isUTC then 1772953200000 else 1772938800000) then - 18000000 else - 14400000)"

text \<open>A state with one model and two deployments, for examples.\<close>

definition exampleDeployment :: "string \<Rightarrow> deployment" where
  "exampleDeployment i =
     \<lparr> d_id = i, d_modelId = ''model-456'', d_version = ''2.1'', d_environment = ''staging'',
       d_status = Deployed, deployedAt = 0, trafficSplit = None, d_metrics = Some [],
       d_infrastructure = Kubernetes, region = ''us-east-1'', monitoringEnabled = True \<rparr>"

definition exampleDashboard :: dashboard where
  "exampleDashboard =
     \<lparr> mockModels = [(fst (mockModel456 utcZone 0 (sconst 0)))
          \<lparr> deploymentHistory := Some [exampleDeployment ''d1'', exampleDeployment ''d2''] \<rparr>],
       mockFeatures = [], mockAlerts = [], mockAuditLogs = [], timers = [] \<rparr>"

section \<open>Properties of rounding\<close>















section \<open>Properties of the performance history\<close>





lemma perfLoop_dates: "map pe_date (fst (perfLoop tz n now c rs)) = map (\<lambda>i. isoDate (setDateBack tz now i)) (rev [0..<n])"
  by (induction n arbitrary: c rs) (auto simp: Let_def split_beta perfEntry_def)








lemma perfLoop_rest: "snd (perfLoop tz n now c rs) = sdrop (6 * n) rs"
  by (induction n arbitrary: c rs) (auto simp: Let_def split_beta)


lemma springZone_dates:
  "map pe_date (fst (generateMockPerformanceHistory springZone 2 1773012600000 rs)) = [20520, 20520]"
proof -
  have n: "nat 2 = Suc (Suc 0)" by simp
  show ?thesis
    unfolding generateMockPerformanceHistory_def perfLoop_dates n
    by (simp add: setDateBack_def utc_def localTime_def springZone_def isoDate_def msPerDay_def)
qed



section \<open>Frame properties of the events\<close>

lemma mapWithSource_rel:
  "(\<And>x s. R x (fst (f x s))) \<Longrightarrow> list_all2 R xs (fst (mapWithSource f xs s))"
  by (induction xs arbitrary: s) (auto simp: Let_def split_beta)

lemma map_rel: "(\<And>x. R x (f x)) \<Longrightarrow> list_all2 R xs (map f xs)"
  by (simp add: list.rel_map list_all2_same)

lemma map_rel_option:
  "(\<And>x. R x (f x)) \<Longrightarrow> rel_option (list_all2 R) xs (map_option (map f) xs)"
  by (cases xs) (simp_all add: map_rel)

text \<open>Every event relates each model to the model in its place afterwards by one of the
  eight updates of the operations, or leaves it as it is.\<close>

lemma step_models_rel:
  assumes same: "\<And>m. R m m"
    and training: "\<And>m r. R m (m\<lparr> m_status := Training, accuracy := toFixed 2 (accuracy m - r * 5) \<rparr>)"
    and staging: "\<And>m r h. R m (m\<lparr> m_status := Staging, accuracy := toFixed 2 (accuracy m + r * 7),
                      performanceHistory := h \<rparr>)"
    and deploying: "\<And>m dep. d_status dep = RollingUpdate \<Longrightarrow>
        R m (m\<lparr> deploymentHistory := Some (orEmpty (deploymentHistory m) @ [dep]),
                 deploymentStatus := Some RollingUpdate \<rparr>)"
    and deployed: "\<And>m i. R m (m\<lparr> deploymentHistory := map_option (map (\<lambda>dep.
                      if d_id dep = i then dep\<lparr> d_status := Deployed \<rparr> else dep)) (deploymentHistory m),
                    deploymentStatus := Some Deployed \<rparr>)"
    and rolledBack: "\<And>m i. R m (m\<lparr> deploymentHistory := map_option (map (\<lambda>dep.
                  if d_id dep = i then dep\<lparr> d_status := Inactive \<rparr> else dep)) (deploymentHistory m) \<rparr>)"
    and split: "\<And>m i sp. R m (m\<lparr> deploymentHistory := map_option (map (\<lambda>dep.
                  if d_id dep = i then dep\<lparr> trafficSplit := Some sp \<rparr> else dep)) (deploymentHistory m) \<rparr>)"
    and hpoStarted: "\<And>m run. h_status run = Running \<Longrightarrow> bestMetricValue run = None \<Longrightarrow>
        R m (m\<lparr> hpoRuns := Some (orEmpty (hpoRuns m) @ [run]) \<rparr>)"
    and hpoDone: "\<And>m i t. hpoTimerDue now e d \<Longrightarrow> R m (m\<lparr> hpoRuns := map_option (map (\<lambda>run.
                      if h_id run = i
                      then run\<lparr> h_status := Completed,
                                completedAt := Some t,
                                bestMetricValue := Some 0.93,
                                bestParameters := Some (JObj [(''learningRate'', JNum 0.005), (''batchSize'', JNum 32)]) \<rparr>
                      else run)) (hpoRuns m) \<rparr>)"
  shows "list_all2 R (mockModels d) (mockModels (step tz now rs us e d))"
proof -
  have refl: "list_all2 R ms ms" for ms by (simp add: list_all2_same same)
  have timer: "list_all2 R (mockModels d) (mockModels (runTimer tz p now rs us (d\<lparr> timers := ts \<rparr>)))"
    if due: "isHPOTimer p \<Longrightarrow> hpoTimerDue now e d" for p ts
  proof (cases p)
    case (RetrainTimer i)
    have "R m (fst (retrainStaging tz i now m s))" for m s
      by (simp add: retrainStaging_def split_beta same staging)
    then show ?thesis using RetrainTimer by (simp add: retrainTimer_def mapWithSource_rel)
  next
    case (DeployTimer model environment newDeployment)
    then show ?thesis by (auto simp: deployTimer_def same deployed intro!: map_rel)
  next
    case (RollbackTimer i)
    then show ?thesis by (simp add: rollbackTimer_def refl)
  next
    case (TrafficSplitTimer i sp)
    then show ?thesis by (simp add: trafficSplitTimer_def refl)
  next
    case (HPOTimer modelId config newRun closureModels)
    then have "hpoTimerDue now e d" using due by (simp add: isHPOTimer_def)
    then show ?thesis using HPOTimer by (auto simp: hpoTimer_def same hpoDone intro!: map_rel)
  qed
  show ?thesis
  proof (cases e)
    case (RetrainMlModel i)
    have "R m (fst (retrainTraining i m s))" for m s
      by (simp add: retrainTraining_def same training)
    then show ?thesis using RetrainMlModel by (simp add: retrainMlModel_def mapWithSource_rel)
  next
    case (DeployMlModel model environment)
    then show ?thesis by (auto simp: deployMlModel_def Let_def same deploying intro!: map_rel)
  next
    case (RollbackDeployment i)
    then show ?thesis by (auto simp: rollbackDeployment_def rolledBack intro!: map_rel)
  next
    case (UpdateTrafficSplit i sp)
    then show ?thesis by (auto simp: updateTrafficSplit_def split intro!: map_rel)
  next
    case (CreateHPOptionRun modelId config)
    then show ?thesis
      by (cases config) (auto simp: createHPOptionRun_def Let_def same refl hpoStarted intro!: map_rel)
  next
    case (AcknowledgeAlert i remark)
    then show ?thesis by (simp add: acknowledgeAlert_def refl)
  next
    case (ResolveAlert i remark)
    then show ?thesis by (simp add: resolveAlert_def refl)
  next
    case (TimerFires k)
    show ?thesis
    proof (cases "k < length (timers d) \<and> fst (timers d ! k) \<le> now")
      case True
      have "list_all2 R (mockModels d) (mockModels (runTimer tz (snd (timers d ! k)) now rs us
              (d\<lparr> timers := take k (timers d) @ drop (Suc k) (timers d) \<rparr>)))"
        by (rule timer) (use True TimerFires in \<open>simp add: hpoTimerDue_def\<close>)
      then show ?thesis using True TimerFires by simp
    next
      case False
      then show ?thesis using TimerFires by (auto simp: refl)
    qed
  qed
qed


lemmas timer_defs = retrainTimer_def deployTimer_def rollbackTimer_def trafficSplitTimer_def hpoTimer_def
lemmas call_defs = retrainMlModel_def deployMlModel_def rollbackDeployment_def updateTrafficSplit_def
  createHPOptionRun_def acknowledgeAlert_def resolveAlert_def

lemma runTimer_features: "mockFeatures (runTimer tz p now rs us d) = mockFeatures d"
  by (cases p) (simp_all add: timer_defs)

lemma step_features: "mockFeatures (step tz now rs us e d) = mockFeatures d"
  by (cases e) (simp_all add: call_defs Let_def runTimer_features split: option.splits)

lemma runTimer_alerts: "mockAlerts (runTimer tz p now rs us d) = mockAlerts d"
  by (cases p) (simp_all add: timer_defs)

lemma step_alert_ids: "map a_id (mockAlerts (step tz now rs us e d)) = map a_id (mockAlerts d)"
  by (cases e) (simp_all add: call_defs Let_def runTimer_alerts o_def split: option.splits)

lemma runTimer_audit:
  "\<exists>extra. mockAuditLogs (runTimer tz p now rs us d) = mockAuditLogs d @ extra \<and> length extra \<le> 1"
  by (cases p) (simp_all add: timer_defs)

lemma step_audit:
  "\<exists>extra. mockAuditLogs (step tz now rs us e d) = mockAuditLogs d @ extra \<and> length extra \<le> 1"
proof (cases e)
  case (TimerFires k)
  then show ?thesis
    using runTimer_audit[of tz "snd (timers d ! k)" now rs us "d\<lparr> timers := take k (timers d) @ drop (Suc k) (timers d) \<rparr>"]
    by simp
qed (simp_all add: call_defs Let_def split: option.splits)

lemma orEmpty_simps: "orEmpty None = []" "orEmpty (Some xs) = xs"
  "orEmpty (map_option (map f) ys) = map f (orEmpty ys)"
  by (simp_all add: orEmpty_def split: option.splits)

lemma map_if_ids:
  "map d_id (map (\<lambda>dep. if P dep then dep\<lparr> d_status := s \<rparr> else dep) xs) = map d_id xs"
  "map d_id (map (\<lambda>dep. if P dep then dep\<lparr> trafficSplit := t \<rparr> else dep) xs) = map d_id xs"
  by (induction xs) auto

lemma map_if_run_ids:
  "map h_id (map (\<lambda>run. if P run then run\<lparr> h_status := s, completedAt := c, bestMetricValue := v, bestParameters := b \<rparr> else run) xs) = map h_id xs"
  by (induction xs) auto

lemma step_keepsRecords: "list_all2 keepsRecords (mockModels d) (mockModels (step tz now rs us e d))"
  by (rule step_models_rel)
     (auto simp add: keepsRecords_def modelDeploymentIds_def modelRunIds_def orEmpty_simps
        map_if_ids map_if_run_ids simp del: map_map)

lemma keepsRecords_ids: "list_all2 keepsRecords ms ms' \<Longrightarrow> map m_id ms' = map m_id ms"
  by (induction rule: list_all2_induct) (auto simp: keepsRecords_def)

lemma keepsRecords_deployments:
  "list_all2 keepsRecords ms ms' \<Longrightarrow>
   set (map d_id (concat (map (\<lambda>m. orEmpty (deploymentHistory m)) ms))) \<subseteq>
   set (map d_id (concat (map (\<lambda>m. orEmpty (deploymentHistory m)) ms')))"
  by (induction rule: list_all2_induct) (auto simp: keepsRecords_def modelDeploymentIds_def)

lemma keepsRecords_runs:
  "list_all2 keepsRecords ms ms' \<Longrightarrow>
   set (map h_id (concat (map (\<lambda>m. orEmpty (hpoRuns m)) ms))) \<subseteq>
   set (map h_id (concat (map (\<lambda>m. orEmpty (hpoRuns m)) ms')))"
  by (induction rule: list_all2_induct) (auto simp: keepsRecords_def modelRunIds_def)

text \<open>
  Claim C1: no record is ever deleted. Whatever the event (a call of one of the seven
  operations, or a timer of one of them firing) and whatever the state, the identifiers of
  the models, deployments, alerts, features, optimisation runs and audit-log entries of
  the state are all identifiers of the state after the event.
\<close>

theorem C1:
  "set (modelIds d) \<subseteq> set (modelIds (step tz now rs us e d)) \<and>
   set (deploymentIds d) \<subseteq> set (deploymentIds (step tz now rs us e d)) \<and>
   set (alertIds d) \<subseteq> set (alertIds (step tz now rs us e d)) \<and>
   set (featureIds d) \<subseteq> set (featureIds (step tz now rs us e d)) \<and>
   set (hpoRunIds d) \<subseteq> set (hpoRunIds (step tz now rs us e d)) \<and>
   set (auditLogIds d) \<subseteq> set (auditLogIds (step tz now rs us e d))"
proof -
  note rel = step_keepsRecords[of d tz now rs us e]
  have "modelIds (step tz now rs us e d) = modelIds d"
    unfolding modelIds_def using rel by (rule keepsRecords_ids)
  moreover have "set (deploymentIds d) \<subseteq> set (deploymentIds (step tz now rs us e d))"
    unfolding deploymentIds_def allDeployments_def using rel by (rule keepsRecords_deployments)
  moreover have "set (hpoRunIds d) \<subseteq> set (hpoRunIds (step tz now rs us e d))"
    unfolding hpoRunIds_def using rel by (rule keepsRecords_runs)
  moreover have "alertIds (step tz now rs us e d) = alertIds d"
    unfolding alertIds_def by (rule step_alert_ids)
  moreover have "featureIds (step tz now rs us e d) = featureIds d"
    unfolding featureIds_def by (simp add: step_features)
  moreover have "set (auditLogIds d) \<subseteq> set (auditLogIds (step tz now rs us e d))"
    unfolding auditLogIds_def using step_audit[of tz now rs us e d] by auto
  ultimately show ?thesis by simp
qed

text \<open>A rollback in the initial state: the deployment stays, marked inactive.\<close>

theorem C1_witness:
  "set (modelIds (initialDashboard utcZone 0 (sconst 0) (sconst ''u''))) \<subseteq>
     set (modelIds (step utcZone 0 (sconst 0) (sconst ''u'') (RollbackDeployment ''u'') (initialDashboard utcZone 0 (sconst 0) (sconst ''u'')))) \<and>
   set (deploymentIds (initialDashboard utcZone 0 (sconst 0) (sconst ''u''))) \<subseteq>
     set (deploymentIds (step utcZone 0 (sconst 0) (sconst ''u'') (RollbackDeployment ''u'') (initialDashboard utcZone 0 (sconst 0) (sconst ''u''))))"
  using C1[of "initialDashboard utcZone 0 (sconst 0) (sconst ''u'')" utcZone 0 "sconst 0" "sconst ''u''" "RollbackDeployment ''u''"]
  by simp




section \<open>Invariants of the reachable states\<close>

lemma list_all2_invariant:
  "list_all2 (\<lambda>m m'. P m \<longrightarrow> P m') ms ms' \<Longrightarrow> \<forall>m\<in>set ms. P m \<Longrightarrow> \<forall>m\<in>set ms'. P m"
  by (induction rule: list_all2_induct) auto

lemma initial_models:
  "mockModels (initialDashboard tz now rs us) =
     [fst (mockModel123 tz now rs us),
      fst (mockModel456 tz now (fst (snd (mockModel123 tz now rs us)))),
      fst (mockModel789 tz now (snd (mockModel456 tz now (fst (snd (mockModel123 tz now rs us))))))]"
  by (simp add: initialDashboard_def split_beta Let_def)

lemma initial_model_fields:
  "m_id (fst (mockModel123 tz now rs us)) = ''model-123''"
  "m_id (fst (mockModel456 tz now rs)) = ''model-456''"
  "m_id (fst (mockModel789 tz now rs)) = ''model-789''"
  "accuracy (fst (mockModel123 tz now rs us)) = 92.5"
  "accuracy (fst (mockModel456 tz now rs)) = 88.1"
  "accuracy (fst (mockModel789 tz now rs)) = 99.2"
  "hpoRuns (fst (mockModel123 tz now rs us)) = None"
  "hpoRuns (fst (mockModel456 tz now rs)) = None"
  "hpoRuns (fst (mockModel789 tz now rs)) = None"
  "deploymentHistory (fst (mockModel456 tz now rs)) = Some []"
  "deploymentHistory (fst (mockModel789 tz now rs)) = Some []"
  by (simp_all add: mockModel123_def mockModel456_def mockModel789_def split_beta Let_def)

text \<open>A property of single models that the initial models have and that the eight updates
  keep holds of every model of every reachable state.\<close>

lemma reachable_models_invariant:
  assumes reach: "reachable d"
    and init: "\<And>tz now rs us. \<forall>m\<in>set (mockModels (initialDashboard tz now rs us)). P m"
    and training: "\<And>m r. P m \<Longrightarrow> P (m\<lparr> m_status := Training, accuracy := toFixed 2 (accuracy m - r * 5) \<rparr>)"
    and staging: "\<And>m r h. P m \<Longrightarrow> P (m\<lparr> m_status := Staging, accuracy := toFixed 2 (accuracy m + r * 7),
                      performanceHistory := h \<rparr>)"
    and deploying: "\<And>m dep. P m \<Longrightarrow> d_status dep = RollingUpdate \<Longrightarrow>
        P (m\<lparr> deploymentHistory := Some (orEmpty (deploymentHistory m) @ [dep]),
                 deploymentStatus := Some RollingUpdate \<rparr>)"
    and deployed: "\<And>m i. P m \<Longrightarrow> P (m\<lparr> deploymentHistory := map_option (map (\<lambda>dep.
                      if d_id dep = i then dep\<lparr> d_status := Deployed \<rparr> else dep)) (deploymentHistory m),
                    deploymentStatus := Some Deployed \<rparr>)"
    and rolledBack: "\<And>m i. P m \<Longrightarrow> P (m\<lparr> deploymentHistory := map_option (map (\<lambda>dep.
                  if d_id dep = i then dep\<lparr> d_status := Inactive \<rparr> else dep)) (deploymentHistory m) \<rparr>)"
    and split: "\<And>m i sp. P m \<Longrightarrow> P (m\<lparr> deploymentHistory := map_option (map (\<lambda>dep.
                  if d_id dep = i then dep\<lparr> trafficSplit := Some sp \<rparr> else dep)) (deploymentHistory m) \<rparr>)"
    and hpoStarted: "\<And>m run. P m \<Longrightarrow> h_status run = Running \<Longrightarrow> bestMetricValue run = None \<Longrightarrow>
        P (m\<lparr> hpoRuns := Some (orEmpty (hpoRuns m) @ [run]) \<rparr>)"
    and hpoDone: "\<And>m i t. P m \<Longrightarrow> P (m\<lparr> hpoRuns := map_option (map (\<lambda>run.
                      if h_id run = i
                      then run\<lparr> h_status := Completed,
                                completedAt := Some t,
                                bestMetricValue := Some 0.93,
                                bestParameters := Some (JObj [(''learningRate'', JNum 0.005), (''batchSize'', JNum 32)]) \<rparr>
                      else run)) (hpoRuns m) \<rparr>)"
  shows "\<forall>m\<in>set (mockModels d). P m"
  using reach
proof (induction rule: reachable.induct)
  case (initial tz now rs us)
  show ?case by (rule init)
next
  case (after d tz now rs us e)
  have "list_all2 (\<lambda>m m'. P m \<longrightarrow> P m') (mockModels d) (mockModels (step tz now rs us e d))"
    by (rule step_models_rel) (auto intro: training staging deploying deployed rolledBack split hpoStarted hpoDone)
  then show ?case using after.IH by (rule list_all2_invariant)
qed



section \<open>No failure branch\<close>

lemma initial_deployments:
  "list_all deploymentHealthy (orEmpty (deploymentHistory (fst (mockModel123 tz now rs us))))"
  by (simp add: mockModel123_def generateMockDeployments_def split_beta Let_def orEmpty_simps deploymentHealthy_def)

lemma reachable_noFailure: "reachable d \<Longrightarrow> \<forall>m\<in>set (mockModels d). noFailure m"
proof (rule reachable_models_invariant[where P = noFailure])
  fix tz now rs us
  show "\<forall>m\<in>set (mockModels (initialDashboard tz now rs us)). noFailure m"
    using initial_deployments by (simp add: initial_models initial_model_fields noFailure_def orEmpty_simps)
qed (auto simp: noFailure_def orEmpty_simps list_all_iff runHealthy_def deploymentHealthy_def)

lemma step_keeps_runs:
  assumes "\<not> hpoTimerDue now e d"
  shows "list_all2 (\<lambda>m m'. take (length (orEmpty (hpoRuns m))) (orEmpty (hpoRuns m')) = orEmpty (hpoRuns m))
     (mockModels d) (mockModels (step tz now rs us e d))"
  by (rule step_models_rel) (use assms in \<open>auto simp: orEmpty_simps\<close>)

lemma hpoTimer_models:
  "list_all2 (\<lambda>m m'. if m_id m = modelId
       then m'\<lparr> hpoRuns := hpoRuns m \<rparr> = m \<and>
            rel_option (list_all2 (\<lambda>x x'. if h_id x = h_id run then x' = completedRun now x else x' = x))
              (hpoRuns m) (hpoRuns m')
       else m' = m)
     (mockModels d) (mockModels (hpoTimer modelId config run cl now us d))"
  unfolding hpoTimer_def completedRun_def by (auto intro!: map_rel map_rel_option)

lemma hpoTimer_audit:
  "\<exists>entry. action entry = ''hpo_run_created'' \<and> targetId entry = modelId \<and>
     mockAuditLogs (hpoTimer modelId config run cl now us d) = mockAuditLogs d @ [entry]"
  unfolding hpoTimer_def
  by (rule exI[of _ "\<lparr> l_id = us !! renderIds, l_timestamp = now, actor = ''User'',
             action = ''hpo_run_created'', targetType = TargetMLModel, targetId = modelId,
             details = [(''modelName'', case find (\<lambda>m. m_id m = modelId) cl of
                                          None \<Rightarrow> JUndefined | Some m \<Rightarrow> JStr (m_name m)),
                        (''strategy'', c_strategy config)] \<rparr>"]) simp

lemma step_hpoTimer:
  assumes "k < length (timers d)" and "timers d ! k = (due, HPOTimer modelId config run cl)"
  shows "step tz now rs us (TimerFires k) d =
     (if due \<le> now
      then hpoTimer modelId config run cl now us (d\<lparr> timers := take k (timers d) @ drop (Suc k) (timers d) \<rparr>)
      else d)"
  using assms by simp

text \<open>
  Claim C5: the workflows have no failure branch. In every state reachable from the
  initial state, no optimisation run is failed or pending, a completed run has the best
  metric value 0.93, and every deployment is deployed, in a rolling update, a canary or
  inactive. \<^verbatim>\<open>createHPOptionRun\<close> with a configuration appends its run as running,
  to the models with the identifier, and sets a timer of five seconds that holds the run;
  without a configuration it throws and leaves the state as it is. When that timer fires,
  in whatever state, the runs with the identifier of the run in the models with the
  identifier of the model become completed with the best metric value 0.93, everything
  else of the models stays, and one entry is appended to the log; the timer fires from five
  seconds after the call on and not before, and the run that the call appended is then
  completed. An event that is not the firing of such a timer leaves every run that exists
  as it is.
\<close>

theorem C5:
  assumes "reachable d"
  shows
  "(\<forall>m\<in>set (mockModels d).
        (\<forall>run\<in>set (orEmpty (hpoRuns m)).
           h_status run \<noteq> Failed \<and> h_status run \<noteq> Pending \<and>
           (h_status run = Completed \<longrightarrow> bestMetricValue run = Some 0.93)) \<and>
        (\<forall>dep\<in>set (orEmpty (deploymentHistory m)).
           d_status dep = Deployed \<or> d_status dep = RollingUpdate \<or> d_status dep = Canary \<or> d_status dep = Inactive)) \<and>
   createHPOptionRun modelId None now us d = Inl TypeError \<and>
   step tz now rs us (CreateHPOptionRun modelId None) d = d \<and>
   (\<exists>run d1.
      createHPOptionRun modelId (Some config) now us d = Inr d1 \<and>
      step tz now rs us (CreateHPOptionRun modelId (Some config)) d = d1 \<and>
      h_id run = shd us \<and> h_status run = Running \<and> bestMetricValue run = None \<and>
      list_all2 (\<lambda>m m'. if m_id m = modelId
          then m' = m\<lparr> hpoRuns := Some (orEmpty (hpoRuns m) @ [run]) \<rparr>
          else m' = m)
        (mockModels d) (mockModels d1) \<and>
      mockAuditLogs d1 = mockAuditLogs d \<and>
      timers d1 = timers d @ [(now + 5000, HPOTimer modelId config run (mockModels d))] \<and>
      list_all2 (\<lambda>m m'. if m_id m = modelId
          then m'\<lparr> hpoRuns := hpoRuns m \<rparr> = m \<and>
               rel_option (list_all2 (\<lambda>x x'. if h_id x = h_id run then x' = completedRun now' x else x' = x))
                 (hpoRuns m) (hpoRuns m')
          else m' = m)
        (mockModels d') (mockModels (hpoTimer modelId config run (mockModels d) now' us' d')) \<and>
      (\<exists>entry. action entry = ''hpo_run_created'' \<and> targetId entry = modelId \<and>
         mockAuditLogs (hpoTimer modelId config run (mockModels d) now' us' d') = mockAuditLogs d' @ [entry]) \<and>
      step tz now' rs' us' (TimerFires (length (timers d))) d1 =
        (if now + 5000 \<le> now'
         then hpoTimer modelId config run (mockModels d) now' us' (d1\<lparr> timers := timers d \<rparr>)
         else d1) \<and>
      (now + 5000 \<le> now' \<longrightarrow>
         list_all2 (\<lambda>m m'. if m_id m = modelId
             then m'\<lparr> hpoRuns := hpoRuns m \<rparr> = m \<and>
                  hpoRuns m' = Some (map (\<lambda>x. if h_id x = h_id run then completedRun now' x else x)
                                       (orEmpty (hpoRuns m)) @ [completedRun now' run])
             else m' = m)
           (mockModels d) (mockModels (step tz now' rs' us' (TimerFires (length (timers d))) d1)))) \<and>
   (\<not> hpoTimerDue t e d' \<longrightarrow>
      list_all2 (\<lambda>m m'. take (length (orEmpty (hpoRuns m))) (orEmpty (hpoRuns m')) = orEmpty (hpoRuns m))
        (mockModels d') (mockModels (step tz t qs ids e d')))"
proof -
  have inv: "\<forall>m\<in>set (mockModels d). noFailure m" using assms by (rule reachable_noFailure)
  have a: "h_status run \<noteq> Failed \<and> h_status run \<noteq> Pending \<and>
           (h_status run = Completed \<longrightarrow> bestMetricValue run = Some 0.93)"
    if "m \<in> set (mockModels d)" "run \<in> set (orEmpty (hpoRuns m))" for m run
  proof -
    have "runHealthy run" using inv that by (auto simp: noFailure_def list_all_iff)
    then show ?thesis by (auto simp: runHealthy_def)
  qed
  have b: "d_status dep = Deployed \<or> d_status dep = RollingUpdate \<or> d_status dep = Canary \<or> d_status dep = Inactive"
    if "m \<in> set (mockModels d)" "dep \<in> set (orEmpty (deploymentHistory m))" for m dep
  proof -
    have "deploymentHealthy dep" using inv that by (auto simp: noFailure_def list_all_iff)
    then show ?thesis by (simp add: deploymentHealthy_def)
  qed
  have c: "createHPOptionRun modelId None now us d = Inl TypeError"
    "step tz now rs us (CreateHPOptionRun modelId None) d = d"
    by (simp_all add: createHPOptionRun_def)
  define run where "run =
            \<lparr> h_id = shd us,
              h_modelId = modelId,
              h_status = Running,
              startedAt = now,
              completedAt = None,
              strategy = c_strategy config,
              searchSpace = c_searchSpace config,
              bestParameters = None,
              bestMetricValue = None,
              trials = [] \<rparr>"
  define d1 where "d1 = d\<lparr> mockModels := map (\<lambda>m.
                     if m_id m = modelId
                     then m\<lparr> hpoRuns := Some (orEmpty (hpoRuns m) @ [run]) \<rparr>
                     else m) (mockModels d),
                  timers := timers d @ [(now + 5000, HPOTimer modelId config run (mockModels d))] \<rparr>"
  have fields: "h_id run = shd us" "h_status run = Running" "bestMetricValue run = None"
    by (simp_all add: run_def)
  have start: "createHPOptionRun modelId (Some config) now us d = Inr d1"
    by (simp add: createHPOptionRun_def Let_def d1_def run_def)
  then have start': "step tz now rs us (CreateHPOptionRun modelId (Some config)) d = d1" by simp
  have 1: "list_all2 (\<lambda>m m'. if m_id m = modelId
          then m' = m\<lparr> hpoRuns := Some (orEmpty (hpoRuns m) @ [run]) \<rparr>
          else m' = m)
        (mockModels d) (mockModels d1)"
    unfolding d1_def by (auto intro!: map_rel)
  have 2: "mockAuditLogs d1 = mockAuditLogs d"
    "timers d1 = timers d @ [(now + 5000, HPOTimer modelId config run (mockModels d))]"
    by (simp_all add: d1_def)
  have drop: "d1\<lparr> timers := take (length (timers d)) (timers d1) @ drop (Suc (length (timers d))) (timers d1) \<rparr> =
      d1\<lparr> timers := timers d \<rparr>"
    by (simp add: 2)
  have 3: "step tz now' rs' us' (TimerFires (length (timers d))) d1 =
        (if now + 5000 \<le> now'
         then hpoTimer modelId config run (mockModels d) now' us' (d1\<lparr> timers := timers d \<rparr>)
         else d1)"
    using step_hpoTimer[of "length (timers d)" d1 "now + 5000" modelId config run "mockModels d" tz now' rs' us']
    unfolding drop by (simp add: 2)
  have 4: "list_all2 (\<lambda>m m'. if m_id m = modelId
             then m'\<lparr> hpoRuns := hpoRuns m \<rparr> = m \<and>
                  hpoRuns m' = Some (map (\<lambda>x. if h_id x = h_id run then completedRun now' x else x)
                                       (orEmpty (hpoRuns m)) @ [completedRun now' run])
             else m' = m)
           (mockModels d) (mockModels (step tz now' rs' us' (TimerFires (length (timers d))) d1))"
    if "now + 5000 \<le> now'"
    unfolding 3 using that
    by (auto simp: d1_def hpoTimer_def completedRun_def list.rel_map o_def intro!: list.rel_refl_strong)
  have 5: "\<not> hpoTimerDue t e d' \<longrightarrow>
      list_all2 (\<lambda>m m'. take (length (orEmpty (hpoRuns m))) (orEmpty (hpoRuns m')) = orEmpty (hpoRuns m))
        (mockModels d') (mockModels (step tz t qs ids e d'))"
    using step_keeps_runs[of t e d' tz qs ids] by blast
  note 6 = hpoTimer_models[of modelId run now' d' config "mockModels d" us']
  note 7 = hpoTimer_audit[of modelId config run "mockModels d" now' us' d']
  have "\<exists>run d1.
      createHPOptionRun modelId (Some config) now us d = Inr d1 \<and>
      step tz now rs us (CreateHPOptionRun modelId (Some config)) d = d1 \<and>
      h_id run = shd us \<and> h_status run = Running \<and> bestMetricValue run = None \<and>
      list_all2 (\<lambda>m m'. if m_id m = modelId
          then m' = m\<lparr> hpoRuns := Some (orEmpty (hpoRuns m) @ [run]) \<rparr>
          else m' = m)
        (mockModels d) (mockModels d1) \<and>
      mockAuditLogs d1 = mockAuditLogs d \<and>
      timers d1 = timers d @ [(now + 5000, HPOTimer modelId config run (mockModels d))] \<and>
      list_all2 (\<lambda>m m'. if m_id m = modelId
          then m'\<lparr> hpoRuns := hpoRuns m \<rparr> = m \<and>
               rel_option (list_all2 (\<lambda>x x'. if h_id x = h_id run then x' = completedRun now' x else x' = x))
                 (hpoRuns m) (hpoRuns m')
          else m' = m)
        (mockModels d') (mockModels (hpoTimer modelId config run (mockModels d) now' us' d')) \<and>
      (\<exists>entry. action entry = ''hpo_run_created'' \<and> targetId entry = modelId \<and>
         mockAuditLogs (hpoTimer modelId config run (mockModels d) now' us' d') = mockAuditLogs d' @ [entry]) \<and>
      step tz now' rs' us' (TimerFires (length (timers d))) d1 =
        (if now + 5000 \<le> now'
         then hpoTimer modelId config run (mockModels d) now' us' (d1\<lparr> timers := timers d \<rparr>)
         else d1) \<and>
      (now + 5000 \<le> now' \<longrightarrow>
         list_all2 (\<lambda>m m'. if m_id m = modelId
             then m'\<lparr> hpoRuns := hpoRuns m \<rparr> = m \<and>
                  hpoRuns m' = Some (map (\<lambda>x. if h_id x = h_id run then completedRun now' x else x)
                                       (orEmpty (hpoRuns m)) @ [completedRun now' run])
             else m' = m)
           (mockModels d) (mockModels (step tz now' rs' us' (TimerFires (length (timers d))) d1)))"
    apply (rule exI[of _ run])
    apply (rule exI[of _ d1])
    apply (intro conjI impI)
    apply (rule start)
    apply (rule start')
    apply (rule fields(1))
    apply (rule fields(2))
    apply (rule fields(3))
    apply (rule 1)
    apply (rule 2(1))
    apply (rule 2(2))
    apply (rule 6)
    apply (rule 7)
    apply (rule 3)
    apply (erule 4)
    done
  with a b c 5 show ?thesis by blast
qed

lemma initial_timers: "timers (initialDashboard tz now rs us) = []"
  by (simp add: initialDashboard_def split_beta Let_def)

text \<open>An optimisation run on the first model of the initial state: running when it is
  created and until five seconds have passed, completed with 0.93 when its timer fires.\<close>

theorem C5_witness:
  "reachable (initialDashboard utcZone 0 (sconst 0) (sconst ''u'')) \<and>
   (\<exists>d1. createHPOptionRun ''model-123'' (Some \<lparr> c_strategy = JStr ''Grid Search'', c_searchSpace = JObj [] \<rparr>) 0 (sconst ''r'')
            (initialDashboard utcZone 0 (sconst 0) (sconst ''u'')) = Inr d1 \<and>
      map (\<lambda>m. map (\<lambda>x. (h_id x, h_status x, bestMetricValue x)) (orEmpty (hpoRuns m))) (mockModels d1) =
        [[(''r'', Running, None)], [], []] \<and>
      map (\<lambda>m. map (\<lambda>x. (h_id x, h_status x, bestMetricValue x)) (orEmpty (hpoRuns m)))
        (mockModels (step utcZone 4999 (sconst 0) (sconst ''v'') (TimerFires 0) d1)) =
        [[(''r'', Running, None)], [], []] \<and>
      map (\<lambda>m. map (\<lambda>x. (h_id x, h_status x, bestMetricValue x)) (orEmpty (hpoRuns m)))
        (mockModels (step utcZone 5000 (sconst 0) (sconst ''v'') (TimerFires 0) d1)) =
        [[(''r'', Completed, Some 0.93)], [], []])"
proof -
  let ?d = "initialDashboard utcZone 0 (sconst 0) (sconst ''u'')"
  let ?c = "\<lparr> c_strategy = JStr ''Grid Search'', c_searchSpace = JObj [] \<rparr>"
  have r: "reachable ?d" by (rule reachable.initial)
  have t: "length (timers ?d) = 0" by (simp add: initial_timers)
  note late = C5[OF r, where modelId = "''model-123''" and config = ?c and now = 0 and us = "sconst ''r''"
      and now' = 5000 and tz = utcZone and rs' = "sconst 0" and us' = "sconst ''v''"
      and rs = "sconst 0" and d' = "initialDashboard utcZone 0 (sconst 0) (sconst ''u'')",
      THEN conjunct2, THEN conjunct2, THEN conjunct2, THEN conjunct1, unfolded t]
  note early = C5[OF r, where modelId = "''model-123''" and config = ?c and now = 0 and us = "sconst ''r''"
      and now' = 4999 and tz = utcZone and rs' = "sconst 0" and us' = "sconst ''v''"
      and rs = "sconst 0" and d' = "initialDashboard utcZone 0 (sconst 0) (sconst ''u'')",
      THEN conjunct2, THEN conjunct2, THEN conjunct2, THEN conjunct1, unfolded t]
  from late obtain run d1 where d1: "createHPOptionRun ''model-123'' (Some ?c) 0 (sconst ''r'') ?d = Inr d1"
    and run: "h_id run = shd (sconst ''r'')" "h_status run = Running" "bestMetricValue run = None"
    and models: "list_all2 (\<lambda>m m'. if m_id m = ''model-123''
          then m' = m\<lparr> hpoRuns := Some (orEmpty (hpoRuns m) @ [run]) \<rparr>
          else m' = m) (mockModels ?d) (mockModels d1)"
    and fired: "0 + 5000 \<le> (5000::int) \<longrightarrow> list_all2 (\<lambda>m m'. if m_id m = ''model-123''
             then m'\<lparr> hpoRuns := hpoRuns m \<rparr> = m \<and>
                  hpoRuns m' = Some (map (\<lambda>x. if h_id x = h_id run then completedRun 5000 x else x)
                                       (orEmpty (hpoRuns m)) @ [completedRun 5000 run])
             else m' = m)
           (mockModels ?d) (mockModels (step utcZone 5000 (sconst 0) (sconst ''v'') (TimerFires 0) d1))"
    by (elim exE conjE) (rule that, assumption+)
  from early d1 have wait: "step utcZone 4999 (sconst 0) (sconst ''v'') (TimerFires 0) d1 = d1"
    by (auto simp del: step.simps)
  have 1: "map (\<lambda>m. map (\<lambda>x. (h_id x, h_status x, bestMetricValue x)) (orEmpty (hpoRuns m))) (mockModels d1) =
        [[(''r'', Running, None)], [], []]"
    using models run
    by (auto simp: initial_models initial_model_fields list_all2_Cons1 orEmpty_simps)
  have 2: "map (\<lambda>m. map (\<lambda>x. (h_id x, h_status x, bestMetricValue x)) (orEmpty (hpoRuns m)))
        (mockModels (step utcZone 5000 (sconst 0) (sconst ''v'') (TimerFires 0) d1)) =
        [[(''r'', Completed, Some 0.93)], [], []]"
    using fired run
    by (auto simp: initial_models initial_model_fields list_all2_Cons1 orEmpty_simps completedRun_def simp del: step.simps)
  show ?thesis using r d1 1 2 wait by (simp del: step.simps)
qed

section \<open>Rollback and deployment\<close>

text \<open>
  Claim C6: \<^verbatim>\<open>rollbackDeployment(deploymentId)\<close> sets the status of every deployment
  with that identifier, in every model, to inactive and changes nothing else of the
  models, the features, the alerts and the log; it sets a timer of two seconds, and when
  the timer fires exactly one entry is appended to the log, with the action
  \<open>deployment_rolled_back\<close> and the deployment as its target.
\<close>

theorem C6:
  "list_all2 (\<lambda>m m'.
       m'\<lparr> deploymentHistory := deploymentHistory m \<rparr> = m \<and>
       rel_option (list_all2 (\<lambda>dep dep'.
           if d_id dep = deploymentId then dep' = dep\<lparr> d_status := Inactive \<rparr> else dep' = dep))
         (deploymentHistory m) (deploymentHistory m'))
     (mockModels d) (mockModels (rollbackDeployment deploymentId now d)) \<and>
   mockFeatures (rollbackDeployment deploymentId now d) = mockFeatures d \<and>
   mockAlerts (rollbackDeployment deploymentId now d) = mockAlerts d \<and>
   mockAuditLogs (rollbackDeployment deploymentId now d) = mockAuditLogs d \<and>
   timers (rollbackDeployment deploymentId now d) = timers d @ [(now + 2000, RollbackTimer deploymentId)] \<and>
   (\<exists>entry. action entry = ''deployment_rolled_back'' \<and> targetId entry = deploymentId \<and>
      rollbackTimer deploymentId now' us d' = d'\<lparr> mockAuditLogs := mockAuditLogs d' @ [entry] \<rparr>)"
proof -
  have "list_all2 (\<lambda>m m'.
       m'\<lparr> deploymentHistory := deploymentHistory m \<rparr> = m \<and>
       rel_option (list_all2 (\<lambda>dep dep'.
           if d_id dep = deploymentId then dep' = dep\<lparr> d_status := Inactive \<rparr> else dep' = dep))
         (deploymentHistory m) (deploymentHistory m'))
     (mockModels d) (mockModels (rollbackDeployment deploymentId now d))"
    unfolding rollbackDeployment_def
    by (auto intro!: map_rel map_rel_option)
  moreover have "\<exists>entry. action entry = ''deployment_rolled_back'' \<and> targetId entry = deploymentId \<and>
      rollbackTimer deploymentId now' us d' = d'\<lparr> mockAuditLogs := mockAuditLogs d' @ [entry] \<rparr>"
    unfolding rollbackTimer_def
    by (rule exI[of _ "\<lparr> l_id = shd us, l_timestamp = now', actor = ''System'',
             action = ''deployment_rolled_back'', targetType = TargetDeployment,
             targetId = deploymentId, details = [(''deploymentId'', JStr deploymentId)] \<rparr>"]) simp
  ultimately show ?thesis by (simp add: rollbackDeployment_def)
qed

text \<open>A rollback of the first of two deployments, and its timer.\<close>

theorem C6_witness:
  "map (\<lambda>dep. (d_id dep, d_status dep)) (allDeployments (rollbackDeployment ''d1'' 0 exampleDashboard)) =
     [(''d1'', Inactive), (''d2'', Deployed)] \<and>
   timers (rollbackDeployment ''d1'' 0 exampleDashboard) = [(2000, RollbackTimer ''d1'')] \<and>
   (\<exists>entry. action entry = ''deployment_rolled_back'' \<and> targetId entry = ''d1'' \<and>
      mockAuditLogs (rollbackTimer ''d1'' 2000 (sconst ''u'') (rollbackDeployment ''d1'' 0 exampleDashboard)) = [entry])"
proof -
  have "map (\<lambda>dep. (d_id dep, d_status dep)) (allDeployments (rollbackDeployment ''d1'' 0 exampleDashboard)) =
     [(''d1'', Inactive), (''d2'', Deployed)]"
    by (simp add: rollbackDeployment_def allDeployments_def exampleDashboard_def exampleDeployment_def orEmpty_def)
  moreover have "mockAuditLogs (rollbackDeployment ''d1'' 0 exampleDashboard) = []"
    "timers exampleDashboard = []"
    by (simp_all add: rollbackDeployment_def exampleDashboard_def)
  ultimately show ?thesis
    using C6[of "''d1''" exampleDashboard 0 2000 "sconst ''u''" "rollbackDeployment ''d1'' 0 exampleDashboard"]
    by auto
qed

text \<open>
  Claim C3: \<^verbatim>\<open>deployMlModel(model, environment)\<close> is set-state, timer, set-state.
  The call appends a new deployment in a rolling update to the history of the models with
  the identifier of \<open>model\<close>, sets their deployment status to a rolling update and
  sets a timer of three seconds; when the timer fires, that deployment and the deployment
  status of those models become deployed and one entry with the action
  \<open>model_deployed\<close> is appended to the log. All other models stay as they are in both
  steps. The last part is the two steps one after the other.
\<close>

theorem C3:
  "\<exists>dep. d_id dep = shd us \<and> d_modelId dep = m_id model \<and> d_environment dep = environment \<and>
      d_status dep = RollingUpdate \<and>
      list_all2 (\<lambda>m m'. if m_id m = m_id model
          then m' = m\<lparr> deploymentHistory := Some (orEmpty (deploymentHistory m) @ [dep]),
                       deploymentStatus := Some RollingUpdate \<rparr>
          else m' = m)
        (mockModels d) (mockModels (deployMlModel model environment now us d)) \<and>
      mockAuditLogs (deployMlModel model environment now us d) = mockAuditLogs d \<and>
      timers (deployMlModel model environment now us d) =
        timers d @ [(now + 3000, DeployTimer model environment dep)] \<and>
      list_all2 (\<lambda>m m'. if m_id m = m_id model
          then m'\<lparr> deploymentHistory := deploymentHistory m, deploymentStatus := deploymentStatus m \<rparr> = m \<and>
               deploymentStatus m' = Some Deployed \<and>
               rel_option (list_all2 (\<lambda>x x'.
                   if d_id x = d_id dep then x' = x\<lparr> d_status := Deployed \<rparr> else x' = x))
                 (deploymentHistory m) (deploymentHistory m')
          else m' = m)
        (mockModels d') (mockModels (deployTimer model environment dep now' us' d')) \<and>
      (\<exists>entry. action entry = ''model_deployed'' \<and> targetId entry = d_id dep \<and>
         mockAuditLogs (deployTimer model environment dep now' us' d') = mockAuditLogs d' @ [entry]) \<and>
      list_all2 (\<lambda>m m'. if m_id m = m_id model
          then deploymentStatus m' = Some Deployed \<and>
               deploymentHistory m' = Some (map (\<lambda>x.
                   if d_id x = d_id dep then x\<lparr> d_status := Deployed \<rparr> else x) (orEmpty (deploymentHistory m))
                 @ [dep\<lparr> d_status := Deployed \<rparr>])
          else m' = m)
        (mockModels d)
        (mockModels (deployTimer model environment dep now' us' (deployMlModel model environment now us d)))"
proof -
  define dep where "dep =
            \<lparr> d_id = shd us,
              d_modelId = m_id model,
              d_version = m_version model,
              d_environment = environment,
              d_status = RollingUpdate,
              deployedAt = now,
              trafficSplit = None,
              d_metrics = Some [],
              d_infrastructure = Kubernetes,
              region = ''us-east-1'',
              monitoringEnabled = True \<rparr>"
  have fields: "d_id dep = shd us" "d_modelId dep = m_id model" "d_environment dep = environment"
    "d_status dep = RollingUpdate" by (simp_all add: dep_def)
  have start: "deployMlModel model environment now us d =
      d\<lparr> mockModels := map (\<lambda>m.
                if m_id m = m_id model
                then m\<lparr> deploymentHistory := Some (orEmpty (deploymentHistory m) @ [dep]),
                        deploymentStatus := Some RollingUpdate \<rparr>
                else m) (mockModels d),
             timers := timers d @ [(now + 3000, DeployTimer model environment dep)] \<rparr>"
    by (simp add: deployMlModel_def dep_def Let_def)
  have 1: "list_all2 (\<lambda>m m'. if m_id m = m_id model
          then m' = m\<lparr> deploymentHistory := Some (orEmpty (deploymentHistory m) @ [dep]),
                       deploymentStatus := Some RollingUpdate \<rparr>
          else m' = m)
        (mockModels d) (mockModels (deployMlModel model environment now us d))"
    unfolding start by (auto intro!: map_rel)
  have 2: "list_all2 (\<lambda>m m'. if m_id m = m_id model
          then m'\<lparr> deploymentHistory := deploymentHistory m, deploymentStatus := deploymentStatus m \<rparr> = m \<and>
               deploymentStatus m' = Some Deployed \<and>
               rel_option (list_all2 (\<lambda>x x'.
                   if d_id x = d_id dep then x' = x\<lparr> d_status := Deployed \<rparr> else x' = x))
                 (deploymentHistory m) (deploymentHistory m')
          else m' = m)
        (mockModels d') (mockModels (deployTimer model environment dep now' us' d'))"
    unfolding deployTimer_def by (auto intro!: map_rel map_rel_option)
  have 3: "\<exists>entry. action entry = ''model_deployed'' \<and> targetId entry = d_id dep \<and>
         mockAuditLogs (deployTimer model environment dep now' us' d') = mockAuditLogs d' @ [entry]"
    unfolding deployTimer_def
    by (rule exI[of _ "\<lparr> l_id = us' !! renderIds, l_timestamp = now', actor = ''System'',
             action = ''model_deployed'', targetType = TargetDeployment, targetId = d_id dep,
             details = [(''modelName'', JStr (m_name model)), (''version'', JStr (m_version model)),
                        (''environment'', JStr environment)] \<rparr>"]) simp
  have 4: "list_all2 (\<lambda>m m'. if m_id m = m_id model
          then deploymentStatus m' = Some Deployed \<and>
               deploymentHistory m' = Some (map (\<lambda>x.
                   if d_id x = d_id dep then x\<lparr> d_status := Deployed \<rparr> else x) (orEmpty (deploymentHistory m))
                 @ [dep\<lparr> d_status := Deployed \<rparr>])
          else m' = m)
        (mockModels d)
        (mockModels (deployTimer model environment dep now' us' (deployMlModel model environment now us d)))"
    unfolding start deployTimer_def by (auto simp: list.rel_map o_def intro!: list.rel_refl_strong)
  have 5: "mockAuditLogs (deployMlModel model environment now us d) = mockAuditLogs d"
    "timers (deployMlModel model environment now us d) =
        timers d @ [(now + 3000, DeployTimer model environment dep)]"
    unfolding start by simp_all
  show ?thesis using fields 1 2 3 4 5 by blast
qed

text \<open>Deploying the second model of the initial state to staging.\<close>

theorem C3_witness:
  "\<exists>dep. d_id dep = ''u'' \<and> d_status dep = RollingUpdate \<and>
      (\<exists>entry. action entry = ''model_deployed'' \<and> targetId entry = d_id dep \<and>
         mockAuditLogs (deployTimer (fst (mockModel456 utcZone 0 (sconst 0))) ''staging'' dep 3000 (sconst ''v'')
           (deployMlModel (fst (mockModel456 utcZone 0 (sconst 0))) ''staging'' 0 (sconst ''u'')
              (initialDashboard utcZone 0 (sconst 0) (sconst ''u'')))) =
         mockAuditLogs (deployMlModel (fst (mockModel456 utcZone 0 (sconst 0))) ''staging'' 0 (sconst ''u'')
              (initialDashboard utcZone 0 (sconst 0) (sconst ''u''))) @ [entry])"
  using C3[of "sconst ''u''" "fst (mockModel456 utcZone 0 (sconst 0))" "''staging''" "initialDashboard utcZone 0 (sconst 0) (sconst ''u'')" 0
      "deployMlModel (fst (mockModel456 utcZone 0 (sconst 0))) ''staging'' 0 (sconst ''u'') (initialDashboard utcZone 0 (sconst 0) (sconst ''u''))"
      3000 "sconst ''v''"]
  by auto

section \<open>Retraining\<close>















lemma snth_sconst [simp]: "sconst x !! n = x"
  by (induction n) simp_all




section \<open>The drift reports\<close>

lemma mapWithSource_length: "length (fst (mapWithSource f xs s)) = length xs"
  by (induction xs arbitrary: s) (auto simp: split_beta)

lemma foldl_sum: "foldl (\<lambda>sum f. sum + g f) (a::real) xs = a + sum_list (map g xs)"
  by (induction xs arbitrary: a) auto

lemma driftReport_consistent: "driftConsistent (fst (driftReport tz now i rs))"
  by (simp add: driftReport_def driftConsistent_def split_beta Let_def mapWithSource_length foldl_sum)

lemma driftLoop_consistent: "r \<in> set (fst (driftLoop tz n now rs)) \<Longrightarrow> driftConsistent r"
  by (induction n arbitrary: rs) (auto simp: split_beta driftReport_consistent)

lemma generated_drift_consistent:
  "r \<in> set (fst (generateMockDataDriftReport tz days now rs)) \<Longrightarrow> driftConsistent r"
  unfolding generateMockDataDriftReport_def by (rule driftLoop_consistent)

lemma initial_drift:
  "list_all driftConsistent (orEmpty (dataDriftHistory (fst (mockModel123 tz now rs us))))"
  "list_all driftConsistent (orEmpty (dataDriftHistory (fst (mockModel456 tz now rs))))"
  "list_all driftConsistent (orEmpty (dataDriftHistory (fst (mockModel789 tz now rs))))"
  by (simp_all add: mockModel123_def mockModel456_def mockModel789_def split_beta Let_def orEmpty_simps
      list_all_iff generated_drift_consistent)

lemma reachable_drift:
  "reachable d \<Longrightarrow> \<forall>m\<in>set (mockModels d). list_all driftConsistent (orEmpty (dataDriftHistory m))"
proof (rule reachable_models_invariant[where P = "\<lambda>m. list_all driftConsistent (orEmpty (dataDriftHistory m))"])
  fix tz now rs us
  show "\<forall>m\<in>set (mockModels (initialDashboard tz now rs us)). list_all driftConsistent (orEmpty (dataDriftHistory m))"
    by (simp add: initial_models initial_drift)
qed simp_all

text \<open>
  Claim C2, as amended: the drift reports do carry a relation that the code computes.
  Every report that \<^verbatim>\<open>generateMockDataDriftReport\<close> produces has five features,
  its overall drift score is the mean of their drift scores rounded to two digits, and
  its flag \<^verbatim>\<open>driftDetected\<close> says whether that score is above 0.25. No operation
  touches a drift report, so the same holds of every report of every reachable state.
\<close>

theorem C2:
  "(\<forall>r\<in>set (fst (generateMockDataDriftReport tz days now rs)).
      length (dr_features r) = 5 \<and>
      overallDriftScore r = toFixed 2 (sum_list (map driftScore (dr_features r)) / 5) \<and>
      driftDetected r = (0.25 < overallDriftScore r)) \<and>
   (reachable d \<longrightarrow>
      (\<forall>m\<in>set (mockModels d). \<forall>r\<in>set (orEmpty (dataDriftHistory m)).
         length (dr_features r) = 5 \<and>
         overallDriftScore r = toFixed 2 (sum_list (map driftScore (dr_features r)) / 5) \<and>
         driftDetected r = (0.25 < overallDriftScore r)))"
  using generated_drift_consistent[of _ tz days now rs] reachable_drift[of d]
  unfolding driftConsistent_def list_all_iff by blast

text \<open>With every random number 9/10, and in the initial state.\<close>

theorem C2_witness:
  "list_all (\<lambda>r. length (dr_features r) = 5 \<and> driftDetected r = (0.25 < overallDriftScore r))
     (fst (generateMockDataDriftReport utcZone 1 0 (sconst (9 / 10)))) \<and>
   reachable (initialDashboard utcZone 0 (sconst 0) (sconst ''u'')) \<and>
   list_all (\<lambda>m. list_all (\<lambda>r. driftDetected r = (0.25 < overallDriftScore r)) (orEmpty (dataDriftHistory m)))
     (mockModels (initialDashboard utcZone 0 (sconst 0) (sconst ''u'')))"
  using C2[of utcZone 1 0 "sconst (9 / 10)" "initialDashboard utcZone 0 (sconst 0) (sconst ''u'')"]
    reachable.initial[of utcZone 0 "sconst 0" "sconst ''u''"]
  unfolding list_all_iff by blast

text \<open>Claim C2 as stated fails: no report that the generator produces has a flag that
  differs from the comparison of its overall score with 0.25.\<close>

theorem C2_counterexample:
  "\<not> (\<exists>days now rs r. r \<in> set (fst (generateMockDataDriftReport utcZone days now rs)) \<and>
        driftDetected r \<noteq> (0.25 < overallDriftScore r))"
  using generated_drift_consistent unfolding driftConsistent_def by blast

lemma sdrop_sconst [simp]: "sdrop n (sconst x) = sconst x"
  by (induction n) auto

lemma toFixed_eval: "\<bar>x\<bar> < 10 ^ 21 \<Longrightarrow> 0 \<le> x \<Longrightarrow> toFixed f x = of_int \<lfloor>x * 10 ^ f + 1 / 2\<rfloor> / 10 ^ f"
  by (simp add: toFixed_def)

lemma drift_example:
  "map (\<lambda>r. (overallDriftScore r, driftDetected r)) (fst (generateMockDataDriftReport utcZone 1 0 (sconst (9 / 10)))) = [(0.45, True)]"
  by (simp add: generateMockDataDriftReport_def driftReport_def driftFeature_def split_beta Let_def toFixed_eval)

section \<open>What generators and events read\<close>
























































lemma example_acknowledged:
  "map l_id (mockAuditLogs (step utcZone 0 (sconst 0) (replicate 14 ''u'' @- sconst ''v'')
      (AcknowledgeAlert ''x'' ''ok'') exampleDashboard)) = [''v'']"
proof -
  have "(replicate 14 ''u'' @- sconst ''v'') !! 14 = ''v''"
    by simp
  then show ?thesis
    by (simp add: exampleDashboard_def acknowledgeAlert_def renderIds_def)
qed


text \<open>The time zone is part of the clock: at the same time, the dates of a history differ
  between two zones.\<close>

lemma zone_example:
  "map pe_date (fst (generateMockPerformanceHistory utcZone 2 1773012600000 rs)) = [20519, 20520] \<and>
   map pe_date (fst (generateMockPerformanceHistory springZone 2 1773012600000 rs)) = [20520, 20520]"
proof -
  have n: "nat 2 = Suc (Suc 0)" by simp
  have "map pe_date (fst (generateMockPerformanceHistory utcZone 2 1773012600000 rs)) = [20519, 20520]"
    unfolding generateMockPerformanceHistory_def perfLoop_dates n
    by (simp add: setDateBack_def utc_def localTime_def utcZone_def isoDate_def msPerDay_def)
  then show ?thesis using springZone_dates[of rs] by simp
qed

section \<open>The input check of handleAnalyze\<close>

lemma trim_empty: "trim s = [] \<longleftrightarrow> (\<forall>c\<in>set s. isWhiteSpace c)"
proof
  assume "trim s = []"
  then have all: "\<forall>c\<in>set (dropWhile isWhiteSpace s). isWhiteSpace c"
    by (simp add: trim_def dropWhile_eq_Nil_conv)
  have "dropWhile isWhiteSpace s = []"
  proof (rule ccontr)
    assume ne: "dropWhile isWhiteSpace s \<noteq> []"
    then have "\<not> isWhiteSpace (hd (dropWhile isWhiteSpace s))" by (rule hd_dropWhile)
    moreover have "hd (dropWhile isWhiteSpace s) \<in> set (dropWhile isWhiteSpace s)" using ne by simp
    ultimately show False using all by blast
  qed
  then show "\<forall>c\<in>set s. isWhiteSpace c" by (simp add: dropWhile_eq_Nil_conv)
next
  assume "\<forall>c\<in>set s. isWhiteSpace c"
  then have "dropWhile isWhiteSpace s = []" by (simp add: dropWhile_eq_Nil_conv)
  then show "trim s = []" unfolding trim_def by (simp del: dropWhile_eq_Nil_conv)
qed

text \<open>
  Claim C10: \<^verbatim>\<open>handleAnalyze\<close> checks its inputs before anything else. If the file
  name or the file content is empty or consists of white space only, it sets the error
  message \<open>Please provide both a file name and content.\<close> and returns: nothing else
  of the state changes (the analysis and the loading flag stay) and no request is sent.
  A request is sent only when both inputs are non-blank, and then (if the client can be
  made) exactly one.
\<close>

theorem C10:
  "((\<forall>c\<in>set (fileName s). isWhiteSpace c) \<or> (\<forall>c\<in>set (fileContent s). isWhiteSpace c) \<longrightarrow>
      handleAnalyze ai apiKey s =
        ([s\<lparr> error := js ''Please provide both a file name and content.'' \<rparr>], [])) \<and>
   (snd (handleAnalyze ai apiKey s) \<noteq> [] \<longrightarrow>
      \<not> (\<forall>c\<in>set (fileName s). isWhiteSpace c) \<and> \<not> (\<forall>c\<in>set (fileContent s). isWhiteSpace c)) \<and>
   (\<not> (\<forall>c\<in>set (fileName s). isWhiteSpace c) \<and> \<not> (\<forall>c\<in>set (fileContent s). isWhiteSpace c) \<and>
    newClient ai (orElse apiKey []) = None \<longrightarrow>
      length (snd (handleAnalyze ai apiKey s)) = 1)"
proof -
  have blank: "(trim (fileName s) = [] \<or> trim (fileContent s) = []) =
      ((\<forall>c\<in>set (fileName s). isWhiteSpace c) \<or> (\<forall>c\<in>set (fileContent s). isWhiteSpace c))"
    by (simp add: trim_empty)
  show ?thesis
    unfolding handleAnalyze_def blank
    by (auto simp: Let_def split: option.splits outcome.splits)
qed

text \<open>A file name that is one space.\<close>

theorem C10_witness:
  "list_all isWhiteSpace (js '' '') \<and>
   handleAnalyze \<lparr> newClient = (\<lambda>k. None), generateContent = (\<lambda>r. Returns None) \<rparr> None
     \<lparr> fileName = js '' '', fileContent = js ''x'', analysis = js ''old'', loading = False, error = [] \<rparr> =
     ([\<lparr> fileName = js '' '', fileContent = js ''x'', analysis = js ''old'', loading = False,
         error = js ''Please provide both a file name and content.'' \<rparr>], [])"
proof -
  have w: "list_all isWhiteSpace (js '' '')" by (simp add: js_def isWhiteSpace_def)
  then show ?thesis
    using C10[of "\<lparr> fileName = js '' '', fileContent = js ''x'', analysis = js ''old'', loading = False, error = [] \<rparr>"
        "\<lparr> newClient = (\<lambda>k. None), generateContent = (\<lambda>r. Returns None) \<rparr>" None]
    by (simp add: list_all_iff)
qed

text \<open>Trimming and replacing, on examples.\<close>

lemma trim_example: "trim (js ''  a b  '') = js ''a b''"
  by (simp add: trim_def js_def isWhiteSpace_def)

lemma replace_example: "replace (js ''{{X}}'') (js ''a$$b$&'') (js ''<{{X}}>'') = js ''<a$b{{X}}>''"
  by (simp add: replace_def js_def)

section \<open>A run of the performance history\<close>

text \<open>Two days, on the fourth day after the epoch, with every random number 1/2.\<close>

lemma perf_example:
  "map (\<lambda>e. (pe_date e, pe_accuracy e, pe_precision e, pe_latency e))
     (fst (generateMockPerformanceHistory utcZone 2 (3 * msPerDay) (sconst (1 / 2)))) =
   [(2, 87.5, 0.88, 55), (3, 87.5, 0.88, 55)]"
proof -
  have n: "nat 2 = Suc (Suc 0)" by simp
  show ?thesis
    unfolding generateMockPerformanceHistory_def n
    by (simp add: Let_def perfStep_def perfEntry_def isoDate_def msPerDay_def toFixed_eval
          setDateBack_def utc_def localTime_def utcZone_def)
qed

end
